theory Spec2Isabelle
  imports Complex_Main "HOL-Library.Word"
begin

section \<open>Python values used by the OBS controller\<close>

text \<open>
  A Python \<open>str\<close> is a sequence of Unicode code points, \<open>bytes\<close> a sequence of
  octets. String literals of the source are written \<open>lit ''...''\<close>.
\<close>

type_synonym pystr = "nat list"
type_synonym byte = "8 word"

definition lit :: "string \<Rightarrow> pystr" where
  "lit s = map of_char s"

text \<open>
  The exceptions that can occur in \<open>obs_live.py\<close>. \<open>JSONDecodeError\<close> and
  \<open>UnicodeEncodeError\<close> are subclasses of \<open>ValueError\<close>; \<open>BaseExc\<close> stands for
  the classes that derive from \<open>BaseException\<close> only (\<open>CancelledError\<close>,
  \<open>KeyboardInterrupt\<close>), which \<open>except Exception\<close> does not catch;
  \<open>OtherException\<close> for any further class derived from \<open>Exception\<close>.
\<close>

datatype exn =
    ConnectionRefusedError
  | ConnectionClosed
  | KeyError pystr
  | TypeError
  | AttributeError
  | ValueError
  | JSONDecodeError
  | UnicodeEncodeError
  | UnicodeDecodeError
  | OverflowError
  | PlainException string
  | OtherException nat
  | BaseExc nat

fun is_Exception :: "exn \<Rightarrow> bool" where
  "is_Exception (BaseExc k) = False"
| "is_Exception e = True"

fun is_ValueError :: "exn \<Rightarrow> bool" where
  "is_ValueError ValueError = True"
| "is_ValueError JSONDecodeError = True"
| "is_ValueError UnicodeEncodeError = True"
| "is_ValueError UnicodeDecodeError = True"
| "is_ValueError e = False"

subsection \<open>\<open>str.encode()\<close> and \<open>bytes.decode()\<close>: strict UTF-8\<close>

definition utf8_char :: "nat \<Rightarrow> byte list option" where
  "utf8_char c =
     (if c < 0x80 then Some [of_nat c]
      else if c < 0x800 then Some [of_nat (0xC0 + c div 64), of_nat (0x80 + c mod 64)]
      else if c < 0x10000 then
        (if 0xD800 \<le> c \<and> c \<le> 0xDFFF then None
         else Some [of_nat (0xE0 + c div 4096), of_nat (0x80 + c div 64 mod 64),
                    of_nat (0x80 + c mod 64)])
      else if c < 0x110000 then
        Some [of_nat (0xF0 + c div 262144), of_nat (0x80 + c div 4096 mod 64),
              of_nat (0x80 + c div 64 mod 64), of_nat (0x80 + c mod 64)]
      else None)"

text \<open>\<open>s.encode()\<close>; \<open>None\<close> is \<open>UnicodeEncodeError\<close> (a lone surrogate).\<close>

fun str_encode :: "pystr \<Rightarrow> byte list option" where
  "str_encode [] = Some []"
| "str_encode (c # cs) =
     (case utf8_char c of
        None \<Rightarrow> None
      | Some bs \<Rightarrow> (case str_encode cs of None \<Rightarrow> None | Some r \<Rightarrow> Some (bs @ r)))"

definition is_cont :: "byte \<Rightarrow> bool" where
  "is_cont b = (0x80 \<le> unat b \<and> unat b \<le> 0xBF)"

text \<open>\<open>b.decode()\<close>; \<open>None\<close> is \<open>UnicodeDecodeError\<close>.\<close>

fun bytes_decode :: "byte list \<Rightarrow> pystr option" where
  "bytes_decode [] = Some []"
| "bytes_decode (b0 # bs) =
     (let n0 = unat b0 in
      if n0 < 0x80 then map_option (Cons n0) (bytes_decode bs)
      else if 0xC2 \<le> n0 \<and> n0 \<le> 0xDF then
        (case bs of
           b1 # r \<Rightarrow>
             if is_cont b1
             then map_option (Cons ((n0 - 0xC0) * 64 + (unat b1 - 0x80))) (bytes_decode r)
             else None
         | _ \<Rightarrow> None)
      else if 0xE0 \<le> n0 \<and> n0 \<le> 0xEF then
        (case bs of
           b1 # b2 # r \<Rightarrow>
             if (if n0 = 0xE0 then 0xA0 else 0x80) \<le> unat b1 \<and>
                unat b1 \<le> (if n0 = 0xED then 0x9F else 0xBF) \<and> is_cont b2
             then map_option
                    (Cons ((n0 - 0xE0) * 4096 + (unat b1 - 0x80) * 64 + (unat b2 - 0x80)))
                    (bytes_decode r)
             else None
         | _ \<Rightarrow> None)
      else if 0xF0 \<le> n0 \<and> n0 \<le> 0xF4 then
        (case bs of
           b1 # b2 # b3 # r \<Rightarrow>
             if (if n0 = 0xF0 then 0x90 else 0x80) \<le> unat b1 \<and>
                unat b1 \<le> (if n0 = 0xF4 then 0x8F else 0xBF) \<and> is_cont b2 \<and> is_cont b3
             then map_option
                    (Cons ((n0 - 0xF0) * 262144 + (unat b1 - 0x80) * 4096 +
                           (unat b2 - 0x80) * 64 + (unat b3 - 0x80)))
                    (bytes_decode r)
             else None
         | _ \<Rightarrow> None)
      else None)"

subsection \<open>\<open>base64.b64encode\<close>\<close>

definition b64_alphabet :: "pystr" where
  "b64_alphabet = lit ''ABCDEFGHIJKLMNOPQRSTUVWXYZabcdefghijklmnopqrstuvwxyz0123456789+/''"

text \<open>The character of a 6-bit group; \<open>mod 64\<close> is the 6-bit mask of the encoder.\<close>

definition b64_digit :: "nat \<Rightarrow> byte" where
  "b64_digit i = of_nat (b64_alphabet ! (i mod 64))"

definition b64_pad :: byte where
  "b64_pad = of_nat (of_char CHR ''='')"

fun b64encode :: "byte list \<Rightarrow> byte list" where
  "b64encode [] = []"
| "b64encode [a] =
     [b64_digit (unat a div 4), b64_digit (unat a mod 4 * 16), b64_pad, b64_pad]"
| "b64encode [a, b] =
     [b64_digit (unat a div 4), b64_digit (unat a mod 4 * 16 + unat b div 16),
      b64_digit (unat b mod 16 * 4), b64_pad]"
| "b64encode (a # b # c # r) =
     [b64_digit (unat a div 4), b64_digit (unat a mod 4 * 16 + unat b div 16),
      b64_digit (unat b mod 16 * 4 + unat c div 64), b64_digit (unat c mod 64)]
     @ b64encode r"

subsection \<open>JSON values\<close>

text \<open>
  What \<open>json.loads\<close> returns. A Python \<open>float\<close> is a rational or one of the three
  non-finite values, which \<open>json.loads\<close> accepts as \<open>Infinity\<close>, \<open>-Infinity\<close>
  and \<open>NaN\<close>. A \<open>dict\<close> is an association list read from the left.
\<close>

datatype pyfloat = Finite rat | PosInf | NegInf | NaN

datatype json =
    JNull
  | JBool bool
  | JInt int
  | JFloat pyfloat
  | JStr pystr
  | JList "json list"
  | JObj "(pystr \<times> json) list"

text \<open>\<open>x[k]\<close> for a string key \<open>k\<close>.\<close>

fun py_getitem :: "json \<Rightarrow> pystr \<Rightarrow> exn + json" where
  "py_getitem (JObj kvs) k = (case map_of kvs k of None \<Rightarrow> Inl (KeyError k) | Some v \<Rightarrow> Inr v)"
| "py_getitem x k = Inl TypeError"

fun starts_with :: "pystr \<Rightarrow> pystr \<Rightarrow> bool" where
  "starts_with s [] = True"
| "starts_with [] (k # ks) = False"
| "starts_with (c # cs) (k # ks) = (c = k \<and> starts_with cs ks)"

fun str_contains :: "pystr \<Rightarrow> pystr \<Rightarrow> bool" where
  "str_contains [] k = starts_with [] k"
| "str_contains (c # cs) k = (starts_with (c # cs) k \<or> str_contains cs k)"

text \<open>
  \<open>k in x\<close> for a string \<open>k\<close>: key membership in a dict, element membership in a
  list, substring test in a string, \<open>TypeError\<close> otherwise.
\<close>

fun py_in :: "pystr \<Rightarrow> json \<Rightarrow> exn + bool" where
  "py_in k (JObj kvs) = Inr (map_of kvs k \<noteq> None)"
| "py_in k (JList xs) = Inr (JStr k \<in> set xs)"
| "py_in k (JStr s) = Inr (str_contains s k)"
| "py_in k x = Inl TypeError"

text \<open>The truth value of \<open>x\<close> in \<open>if x:\<close>.\<close>

fun truthy :: "json \<Rightarrow> bool" where
  "truthy JNull = False"
| "truthy (JBool b) = b"
| "truthy (JInt n) = (n \<noteq> 0)"
| "truthy (JFloat (Finite q)) = (q \<noteq> 0)"
| "truthy (JFloat f) = True"
| "truthy (JStr s) = (s \<noteq> [])"
| "truthy (JList xs) = (xs \<noteq> [])"
| "truthy (JObj kvs) = (kvs \<noteq> [])"

text \<open>\<open>x == n\<close> for an \<open>int\<close> \<open>n\<close>: numeric equality; \<open>True\<close> counts as 1.\<close>

fun py_eq_int :: "json \<Rightarrow> int \<Rightarrow> bool" where
  "py_eq_int (JInt k) n = (k = n)"
| "py_eq_int (JBool b) n = ((if b then 1 else 0) = n)"
| "py_eq_int (JFloat (Finite q)) n = (q = of_int n)"
| "py_eq_int x n = False"

text \<open>\<open>s + x\<close> for a \<open>str\<close> \<open>s\<close>.\<close>

fun py_str_add :: "pystr \<Rightarrow> json \<Rightarrow> exn + pystr" where
  "py_str_add s (JStr t) = Inr (s @ t)"
| "py_str_add s x = Inl TypeError"

definition encode_or_raise :: "pystr \<Rightarrow> exn + byte list" where
  "encode_or_raise s = (case str_encode s of None \<Rightarrow> Inl UnicodeEncodeError | Some bs \<Rightarrow> Inr bs)"

definition decode_or_raise :: "byte list \<Rightarrow> exn + pystr" where
  "decode_or_raise bs = (case bytes_decode bs of None \<Rightarrow> Inl UnicodeDecodeError | Some s \<Rightarrow> Inr s)"

definition bindE :: "exn + 'a \<Rightarrow> ('a \<Rightarrow> exn + 'b) \<Rightarrow> exn + 'b" where
  "bindE r f = (case r of Inl e \<Rightarrow> Inl e | Inr x \<Rightarrow> f x)"

text \<open>
  Lines 74 to 80 of \<open>_send_identify\<close>: \<open>secret\<close> and \<open>auth_response\<close>, with
  \<open>hashlib.sha256(...).digest()\<close> as the parameter \<open>H\<close>.
\<close>

definition auth_response :: "(byte list \<Rightarrow> byte list) \<Rightarrow> pystr \<Rightarrow> json \<Rightarrow> json \<Rightarrow> exn + pystr" where
  "auth_response H password salt challenge =
     bindE (py_str_add password salt) (\<lambda>ps.
     bindE (encode_or_raise ps) (\<lambda>e1.
     bindE (decode_or_raise (b64encode (H e1))) (\<lambda>secret.
     bindE (py_str_add secret challenge) (\<lambda>sc.
     bindE (encode_or_raise sc) (\<lambda>e2.
     decode_or_raise (b64encode (H e2)))))))"

text \<open>
  The token as the specification writes it, on octets:
  base64(sha256(base64(sha256(UTF8(secret + salt))) + UTF8(challenge))).
\<close>

definition spec_token :: "(byte list \<Rightarrow> byte list) \<Rightarrow> pystr \<Rightarrow> pystr \<Rightarrow> pystr \<Rightarrow> byte list option" where
  "spec_token H secret salt challenge =
     (case str_encode (secret @ salt) of
        None \<Rightarrow> None
      | Some x \<Rightarrow>
          (case str_encode challenge of
             None \<Rightarrow> None
           | Some y \<Rightarrow> Some (b64encode (H (b64encode (H x) @ y)))))"

section \<open>Clock and calendar\<close>

text \<open>A naive \<open>datetime\<close>, as \<open>datetime.now()\<close> and \<open>strptime\<close> return it.\<close>

record datetime =
  year :: nat
  month :: nat
  day :: nat
  hour :: nat
  minute :: nat
  second :: nat
  microsecond :: nat

definition is_leap :: "nat \<Rightarrow> bool" where
  "is_leap y = (y mod 4 = 0 \<and> (y mod 100 \<noteq> 0 \<or> y mod 400 = 0))"

definition days_in_month :: "nat \<Rightarrow> nat \<Rightarrow> nat" where
  "days_in_month y m =
     (if m = 2 then (if is_leap y then 29 else 28)
      else if m = 4 \<or> m = 6 \<or> m = 9 \<or> m = 11 then 30 else 31)"

definition valid_date :: "nat \<Rightarrow> nat \<Rightarrow> nat \<Rightarrow> bool" where
  "valid_date y m d = (1 \<le> y \<and> y \<le> 9999 \<and> 1 \<le> m \<and> m \<le> 12 \<and> 1 \<le> d \<and> d \<le> days_in_month y m)"

text \<open>\<open>t.replace(year=y, month=m, day=d)\<close>: \<open>ValueError\<close> when the date does not exist.\<close>

definition dt_replace :: "datetime \<Rightarrow> nat \<Rightarrow> nat \<Rightarrow> nat \<Rightarrow> exn + datetime" where
  "dt_replace t y m d =
     (if valid_date y m d then Inr (t\<lparr>year := y, month := m, day := d\<rparr>) else Inl ValueError)"

text \<open>\<open>t + timedelta(days=1)\<close>: \<open>OverflowError\<close> past 9999-12-31.\<close>

definition dt_add_day :: "datetime \<Rightarrow> exn + datetime" where
  "dt_add_day t =
     (if day t < days_in_month (year t) (month t) then Inr (t\<lparr>day := day t + 1\<rparr>)
      else if month t < 12 then Inr (t\<lparr>month := month t + 1, day := 1\<rparr>)
      else if year t < 9999 then Inr (t\<lparr>year := year t + 1, month := 1, day := 1\<rparr>)
      else Inl OverflowError)"

text \<open>Comparison of two \<open>datetime\<close> values: lexicographic on the seven fields.\<close>

definition dt_fields :: "datetime \<Rightarrow> nat list" where
  "dt_fields t = [year t, month t, day t, hour t, minute t, second t, microsecond t]"

fun lex_le :: "nat list \<Rightarrow> nat list \<Rightarrow> bool" where
  "lex_le [] ys = True"
| "lex_le (x # xs) [] = False"
| "lex_le (x # xs) (y # ys) = (x < y \<or> (x = y \<and> lex_le xs ys))"

definition dt_le :: "datetime \<Rightarrow> datetime \<Rightarrow> bool" where
  "dt_le a b = lex_le (dt_fields a) (dt_fields b)"

definition dt_lt :: "datetime \<Rightarrow> datetime \<Rightarrow> bool" where
  "dt_lt a b = (\<not> dt_le b a)"

text \<open>The proleptic Gregorian ordinal of a date (day 1 is 0001-01-01).\<close>

definition days_before_year :: "nat \<Rightarrow> int" where
  "days_before_year y =
     (let z = int y - 1 in z * 365 + z div 4 - z div 100 + z div 400)"

definition days_before_month :: "nat \<Rightarrow> nat \<Rightarrow> int" where
  "days_before_month y m =
     [0, 0, 31, 59, 90, 120, 151, 181, 212, 243, 273, 304, 334] ! m
       + (if 2 < m \<and> is_leap y then 1 else 0)"

definition ymd2ord :: "datetime \<Rightarrow> int" where
  "ymd2ord t = days_before_year (year t) + days_before_month (year t) (month t) + int (day t)"

text \<open>\<open>a - b\<close> in microseconds; \<open>total_seconds()\<close> is this number divided by \<open>10 ^ 6\<close>.\<close>

definition dt_diff_us :: "datetime \<Rightarrow> datetime \<Rightarrow> int" where
  "dt_diff_us a b =
     ((ymd2ord a - ymd2ord b) * 86400
        + (int (hour a) * 3600 + int (minute a) * 60 + int (second a))
        - (int (hour b) * 3600 + int (minute b) * 60 + int (second b))) * 1000000
     + (int (microsecond a) - int (microsecond b))"

text \<open>\<open>int(x)\<close> on a number of seconds given in microseconds: truncation towards zero.\<close>

definition trunc_seconds :: "int \<Rightarrow> int" where
  "trunc_seconds us = sgn us * (\<bar>us\<bar> div 1000000)"

subsection \<open>\<open>datetime.strptime(s, "%H:%M")\<close>\<close>

text \<open>
  \<open>strptime\<close> matches the string against
  \<^verbatim>\<open>(?P<H>2[0-3]|[0-1]\d|\d):(?P<M>[0-5]\d|\d)\<close>, takes the first match in the order
  of the alternatives and raises \<open>ValueError\<close> when nothing matches or text remains.
  \<^verbatim>\<open>\d\<close> is any Unicode decimal digit; the table of these digits is the parameter
  \<open>nd\<close>, which gives the value of a digit and \<open>None\<close> for every other code point.
\<close>

definition ascii_digit :: "nat \<Rightarrow> nat option" where
  "ascii_digit c = (if 48 \<le> c \<and> c \<le> 57 then Some (c - 48) else None)"

text \<open>The minute group and the end of the match: the minute and the text that remains.\<close>

definition match_M :: "(nat \<Rightarrow> nat option) \<Rightarrow> pystr \<Rightarrow> (nat \<times> pystr) option" where
  "match_M nd s =
     (case s of
        [] \<Rightarrow> None
      | d0 # r \<Rightarrow>
          (case (if 48 \<le> d0 \<and> d0 \<le> 53 then
                   (case r of [] \<Rightarrow> None
                    | d1 # r' \<Rightarrow> (case nd d1 of None \<Rightarrow> None
                                  | Some v \<Rightarrow> Some ((d0 - 48) * 10 + v, r')))
                 else None) of
             Some res \<Rightarrow> Some res
           | None \<Rightarrow> (case nd d0 of None \<Rightarrow> None | Some v \<Rightarrow> Some (v, r))))"

text \<open>What follows the hour group: the colon, then the minute group.\<close>

definition match_colon_M :: "(nat \<Rightarrow> nat option) \<Rightarrow> pystr \<Rightarrow> (nat \<times> pystr) option" where
  "match_colon_M nd s =
     (case s of [] \<Rightarrow> None | c # r \<Rightarrow> if c = 58 then match_M nd r else None)"

definition or_else :: "'a option \<Rightarrow> 'a option \<Rightarrow> 'a option" where
  "or_else a b = (case a of Some x \<Rightarrow> Some x | None \<Rightarrow> b)"

text \<open>The three alternatives of the hour group, each followed by the rest of the pattern.\<close>

definition match_HM :: "(nat \<Rightarrow> nat option) \<Rightarrow> pystr \<Rightarrow> ((nat \<times> nat) \<times> pystr) option" where
  "match_HM nd s =
     or_else
       (case s of
          c0 # c1 # r \<Rightarrow>
            if c0 = 50 \<and> 48 \<le> c1 \<and> c1 \<le> 51
            then map_option (\<lambda>(m, rest). ((20 + (c1 - 48), m), rest)) (match_colon_M nd r)
            else None
        | _ \<Rightarrow> None)
    (or_else
       (case s of
          c0 # c1 # r \<Rightarrow>
            if 48 \<le> c0 \<and> c0 \<le> 49
            then (case nd c1 of
                    None \<Rightarrow> None
                  | Some v \<Rightarrow>
                      map_option (\<lambda>(m, rest). (((c0 - 48) * 10 + v, m), rest)) (match_colon_M nd r))
            else None
        | _ \<Rightarrow> None)
       (case s of
          c0 # r \<Rightarrow>
            (case nd c0 of
               None \<Rightarrow> None
             | Some v \<Rightarrow> map_option (\<lambda>(m, rest). ((v, m), rest)) (match_colon_M nd r))
        | _ \<Rightarrow> None))"

definition strptime_HM :: "(nat \<Rightarrow> nat option) \<Rightarrow> pystr \<Rightarrow> exn + datetime" where
  "strptime_HM nd s =
     (case match_HM nd s of
        None \<Rightarrow> Inl ValueError
      | Some ((h, m), rest) \<Rightarrow>
          if rest \<noteq> [] then Inl ValueError
          else if h < 24 \<and> m < 60 then
            Inr \<lparr>year = 1900, month = 1, day = 1, hour = h, minute = m, second = 0,
                 microsecond = 0\<rparr>
          else Inl ValueError)"

section \<open>The controller, its transport and what it does\<close>

text \<open>
  An awaited call returns a value, raises, or never completes: \<open>recv()\<close> has no
  timeout in the source, so a silent server blocks the caller for ever.
\<close>

datatype 'a res = Returns 'a | Raises exn | Blocks

text \<open>The lines written by \<open>print\<close>, one constructor for each \<open>print\<close> statement.\<close>

datatype pout =
    PConnected pystr int
  | PReceivedHello
  | PIdentified
  | PFailedIdentify json
  | PCouldNotConnect
  | PMakeSureRunning
  | PConnectionError exn
  | PAuthIncluded
  | PAuthRequired
  | PNoAuthRequired
  | PStreamingStarted
  | PStartFailed json
  | PStreamingStopped
  | PStopFailed json
  | PCurrentlyStreaming
  | PDuration json
  | PBytesSent json
  | PNotStreaming
  | PStatusFailed json
  | PScheduledFor datetime
  | PWaiting int
  | PStartingScheduled
  | PWillStopIn int
  | PStoppingScheduled
  | PInvalidTimeFormat
  | PSchedulingError exn
  | PDisconnected
  | PTriggering

text \<open>
  What the program does to the outside, in order: a message handed to
  \<open>websocket.send\<close> (the value given to \<open>json.dumps\<close>), a printed line, a completed
  \<open>asyncio.sleep\<close> (in microseconds), the closing of an open connection.
\<close>

datatype event = Sent json | Printed pout | Slept int | ClosedLink

text \<open>
  A text frame received from the server: one that \<open>json.loads\<close> parses to the given
  value, or one that is not JSON.
\<close>

datatype wire = Payload json | NotJson

definition json_loads :: "wire \<Rightarrow> exn + json" where
  "json_loads m = (case m of Payload v \<Rightarrow> Inr v | NotJson \<Rightarrow> Inl JSONDecodeError)"

datatype link = LinkOpen | LinkClosed

text \<open>
  The fields of \<open>OBSController\<close> (\<open>host\<close>, \<open>port\<close>, \<open>password\<close>, \<open>websocket\<close>)
  together with its environment: the outcome of \<open>websockets.connect\<close>, the outcomes of
  the successive \<open>recv()\<close> and \<open>send()\<close> calls (when \<open>inbox\<close> is used up the server
  says nothing more; when \<open>send_results\<close> is used up every further send succeeds), the
  readings of \<open>datetime.now()\<close> (the \<open>k\<close>-th call returns \<open>clock k\<close>), and the trace of
  events so far.
\<close>

record obs =
  host :: pystr
  port :: int
  password :: "pystr option"
  websocket :: "link option"
  dial :: "unit res"
  inbox :: "wire res list"
  send_results :: "unit res list"
  clock :: "nat \<Rightarrow> datetime"
  ticks :: nat
  trace :: "event list"

type_synonym 'a act = "obs \<Rightarrow> 'a res \<times> obs"

definition ret :: "'a \<Rightarrow> 'a act" where
  "ret x s = (Returns x, s)"

definition raise :: "exn \<Rightarrow> 'a act" where
  "raise e s = (Raises e, s)"

definition then_do :: "'a act \<Rightarrow> ('a \<Rightarrow> 'b act) \<Rightarrow> 'b act" where
  "then_do m f s =
     (case m s of
        (Returns x, s') \<Rightarrow> f x s'
      | (Raises e, s') \<Rightarrow> (Raises e, s')
      | (Blocks, s') \<Rightarrow> (Blocks, s'))"

definition lift :: "exn + 'a \<Rightarrow> 'a act" where
  "lift r s = (case r of Inl e \<Rightarrow> (Raises e, s) | Inr x \<Rightarrow> (Returns x, s))"

text \<open>\<open>try: m except ...: h\<close>; the handler re-raises what its clauses do not catch.\<close>

definition try_except :: "'a act \<Rightarrow> (exn \<Rightarrow> 'a act) \<Rightarrow> 'a act" where
  "try_except m h s = (case m s of (Raises e, s') \<Rightarrow> h e s' | r \<Rightarrow> r)"

text \<open>
  \<open>try: m finally: fin\<close>: \<open>fin\<close> runs when \<open>m\<close> returns and when it raises; the
  outcome of \<open>m\<close> stands unless \<open>fin\<close> itself raises or blocks.
\<close>

definition try_finally :: "'a act \<Rightarrow> unit act \<Rightarrow> 'a act" where
  "try_finally m fin s =
     (case m s of
        (Blocks, s') \<Rightarrow> (Blocks, s')
      | (r, s') \<Rightarrow>
          (case fin s' of
             (Returns u, s'') \<Rightarrow> (r, s'')
           | (Raises e, s'') \<Rightarrow> (Raises e, s'')
           | (Blocks, s'') \<Rightarrow> (Blocks, s'')))"

definition emit :: "event \<Rightarrow> unit act" where
  "emit ev s = (Returns (), s\<lparr>trace := trace s @ [ev]\<rparr>)"

text \<open>\<open>print\<close> of a line that holds only fixed text and escaped (\<open>repr\<close>) data.\<close>

definition py_print :: "pout \<Rightarrow> unit act" where
  "py_print p = emit (Printed p)"

text \<open>
  \<open>print(f"... {v}")\<close> for a value \<open>v\<close> taken from a message of the server. A string
  is written as it is, and standard output (UTF-8, strict) cannot encode a lone
  surrogate, which \<open>json.loads\<close> accepts as \<^verbatim>\<open>\ud800\<close>: \<open>print\<close> then raises
  \<open>UnicodeEncodeError\<close> and writes nothing. Every other value is written through
  \<open>repr\<close>, which escapes such code points.
\<close>

definition printable :: "json \<Rightarrow> bool" where
  "printable v = (case v of JStr t \<Rightarrow> str_encode t \<noteq> None | _ \<Rightarrow> True)"

definition print_value :: "(json \<Rightarrow> pout) \<Rightarrow> json \<Rightarrow> unit act" where
  "print_value line v = (if printable v then py_print (line v) else raise UnicodeEncodeError)"

definition sleep :: "int \<Rightarrow> unit act" where
  "sleep us = emit (Slept us)"

definition now :: "datetime act" where
  "now s = (Returns (clock s (ticks s)), s\<lparr>ticks := ticks s + 1\<rparr>)"

definition get_password :: "pystr option act" where
  "get_password s = (Returns (password s), s)"

subsection \<open>The websocket\<close>

text \<open>\<open>self.websocket = await websockets.connect(uri)\<close>\<close>

definition ws_connect :: "unit act" where
  "ws_connect s =
     (case dial s of
        Returns u \<Rightarrow> (Returns (), s\<lparr>websocket := Some LinkOpen\<rparr>)
      | Raises e \<Rightarrow> (Raises e, s)
      | Blocks \<Rightarrow> (Blocks, s))"

text \<open>\<open>await self.websocket.send(json.dumps(msg))\<close>\<close>

definition ws_send :: "json \<Rightarrow> unit act" where
  "ws_send msg s =
     (case websocket s of
        None \<Rightarrow> (Raises AttributeError, s)
      | Some LinkClosed \<Rightarrow> (Raises ConnectionClosed, s)
      | Some LinkOpen \<Rightarrow>
          (case send_results s of
             [] \<Rightarrow> (Returns (), s\<lparr>trace := trace s @ [Sent msg]\<rparr>)
           | r # rs \<Rightarrow>
               (case r of
                  Returns u \<Rightarrow> (Returns (), s\<lparr>send_results := rs, trace := trace s @ [Sent msg]\<rparr>)
                | Raises e \<Rightarrow> (Raises e, s\<lparr>send_results := rs\<rparr>)
                | Blocks \<Rightarrow> (Blocks, s\<lparr>send_results := rs\<rparr>))))"

text \<open>\<open>await self.websocket.recv()\<close>\<close>

definition ws_recv :: "wire act" where
  "ws_recv s =
     (case websocket s of
        None \<Rightarrow> (Raises AttributeError, s)
      | Some LinkClosed \<Rightarrow> (Raises ConnectionClosed, s)
      | Some LinkOpen \<Rightarrow>
          (case inbox s of
             [] \<Rightarrow> (Blocks, s)
           | r # rs \<Rightarrow> (r, s\<lparr>inbox := rs\<rparr>)))"

text \<open>
  \<open>await self.websocket.close()\<close>: closes an open connection and does nothing on a
  closed one.
\<close>

definition ws_close :: "unit act" where
  "ws_close s =
     (case websocket s of
        None \<Rightarrow> (Raises AttributeError, s)
      | Some LinkClosed \<Rightarrow> (Returns (), s)
      | Some LinkOpen \<Rightarrow>
          (Returns (), s\<lparr>websocket := Some LinkClosed, trace := trace s @ [ClosedLink]\<rparr>))"

subsection \<open>\<open>OBSController\<close>\<close>

text \<open>\<open>OBSController(host, port, password)\<close> in the environment \<open>env\<close>.\<close>

definition OBSController :: "pystr \<Rightarrow> int \<Rightarrow> pystr option \<Rightarrow> obs \<Rightarrow> obs" where
  "OBSController h p pw env = env\<lparr>host := h, port := p, password := pw, websocket := None\<rparr>"

text \<open>The message built by \<open>_send_identify\<close>, with or without the token.\<close>

definition identify_message :: "pystr option \<Rightarrow> json" where
  "identify_message tok =
     JObj [(lit ''op'', JInt 1),
           (lit ''d'', JObj ((lit ''rpcVersion'', JInt 1) #
                             (case tok of None \<Rightarrow> []
                              | Some t \<Rightarrow> [(lit ''authentication'', JStr t)])))]"

definition send_identify :: "(byte list \<Rightarrow> byte list) \<Rightarrow> json \<Rightarrow> unit act" where
  "send_identify H hello_data =
     then_do (lift (py_getitem hello_data (lit ''d''))) (\<lambda>d.
     then_do (lift (py_in (lit ''authentication'') d)) (\<lambda>required.
     then_do
       (if required then
          then_do (lift (py_getitem d (lit ''authentication''))) (\<lambda>auth_data.
          then_do (lift (py_getitem auth_data (lit ''challenge''))) (\<lambda>challenge.
          then_do (lift (py_getitem auth_data (lit ''salt''))) (\<lambda>salt.
          then_do get_password (\<lambda>pw.
            (case pw of
               None \<Rightarrow>
                 then_do (py_print PAuthRequired) (\<lambda>_.
                 raise (PlainException ''Authentication required but no password provided''))
             | Some p \<Rightarrow>
                 if p = [] then
                   then_do (py_print PAuthRequired) (\<lambda>_.
                   raise (PlainException ''Authentication required but no password provided''))
                 else
                   then_do (lift (auth_response H p salt challenge)) (\<lambda>tok.
                   then_do (py_print PAuthIncluded) (\<lambda>_.
                   ret (Some tok))))))))
        else then_do (py_print PNoAuthRequired) (\<lambda>_. ret None))
       (\<lambda>tok. ws_send (identify_message tok))))"

text \<open>
  The \<open>try\<close> block of \<open>connect\<close> in its three steps: opening the connection and
  reading the Hello message (lines 27 to 33), \<open>_send_identify\<close> (line 36), reading the
  Identified message (lines 39 to 47).
\<close>

definition receive_hello :: "json act" where
  "receive_hello =
     then_do ws_connect (\<lambda>_.
     then_do (\<lambda>s. py_print (PConnected (host s) (port s)) s) (\<lambda>_.
     then_do ws_recv (\<lambda>hello_message.
     then_do (lift (json_loads hello_message)) (\<lambda>hello_data.
     then_do (py_print PReceivedHello) (\<lambda>_.
     ret hello_data)))))"

definition receive_identified :: "bool act" where
  "receive_identified =
     then_do ws_recv (\<lambda>identified_message.
     then_do (lift (json_loads identified_message)) (\<lambda>identified_data.
     then_do (lift (py_getitem identified_data (lit ''op''))) (\<lambda>op.
       if py_eq_int op 2
       then then_do (py_print PIdentified) (\<lambda>_. ret True)
       else then_do (py_print (PFailedIdentify identified_data)) (\<lambda>_. ret False))))"

definition connect_try :: "(byte list \<Rightarrow> byte list) \<Rightarrow> bool act" where
  "connect_try H =
     then_do receive_hello (\<lambda>hello_data.
     then_do (send_identify H hello_data) (\<lambda>_.
     receive_identified))"

text \<open>The two \<open>except\<close> clauses of \<open>connect\<close> (lines 49 to 55).\<close>

definition connect_except :: "exn \<Rightarrow> bool act" where
  "connect_except e =
     (if e = ConnectionRefusedError then
        then_do (py_print PCouldNotConnect) (\<lambda>_.
        then_do (py_print PMakeSureRunning) (\<lambda>_. ret False))
      else if is_Exception e then
        then_do (py_print (PConnectionError e)) (\<lambda>_. ret False)
      else raise e)"

definition connect :: "(byte list \<Rightarrow> byte list) \<Rightarrow> bool act" where
  "connect H = try_except (connect_try H) connect_except"

text \<open>\<open>x[k1][k2]...\<close>\<close>

fun py_path :: "json \<Rightarrow> pystr list \<Rightarrow> exn + json" where
  "py_path x [] = Inr x"
| "py_path x (k # ks) = bindE (py_getitem x k) (\<lambda>y. py_path y ks)"

definition request :: "string \<Rightarrow> string \<Rightarrow> json" where
  "request request_type request_id =
     JObj [(lit ''op'', JInt 6),
           (lit ''d'', JObj [(lit ''requestType'', JStr (lit request_type)),
                             (lit ''requestId'', JStr (lit request_id))])]"

definition start_streaming :: "unit act" where
  "start_streaming =
     then_do (ws_send (request ''StartStream'' ''start-stream'')) (\<lambda>_.
     then_do ws_recv (\<lambda>response.
     then_do (lift (json_loads response)) (\<lambda>result.
     then_do (lift (py_path result [lit ''d'', lit ''requestStatus'', lit ''result''])) (\<lambda>ok.
       if truthy ok then py_print PStreamingStarted
       else
         then_do (lift (py_path result [lit ''d'', lit ''requestStatus'', lit ''comment'']))
           (\<lambda>comment. print_value PStartFailed comment)))))"

definition stop_streaming :: "unit act" where
  "stop_streaming =
     then_do (ws_send (request ''StopStream'' ''stop-stream'')) (\<lambda>_.
     then_do ws_recv (\<lambda>response.
     then_do (lift (json_loads response)) (\<lambda>result.
     then_do (lift (py_path result [lit ''d'', lit ''requestStatus'', lit ''result''])) (\<lambda>ok.
       if truthy ok then py_print PStreamingStopped
       else
         then_do (lift (py_path result [lit ''d'', lit ''requestStatus'', lit ''comment'']))
           (\<lambda>comment. print_value PStopFailed comment)))))"

definition get_stream_status :: "unit act" where
  "get_stream_status =
     then_do (ws_send (request ''GetStreamStatus'' ''get-stream-status'')) (\<lambda>_.
     then_do ws_recv (\<lambda>response.
     then_do (lift (json_loads response)) (\<lambda>result.
     then_do (lift (py_path result [lit ''d'', lit ''requestStatus'', lit ''result''])) (\<lambda>ok.
       if truthy ok then
         then_do (lift (py_path result [lit ''d'', lit ''responseData''])) (\<lambda>status.
         then_do (lift (py_getitem status (lit ''outputActive''))) (\<lambda>active.
           if truthy active then
             then_do (py_print PCurrentlyStreaming) (\<lambda>_.
             then_do (lift (py_getitem status (lit ''outputDuration''))) (\<lambda>duration.
             then_do (print_value PDuration duration) (\<lambda>_.
             then_do (lift (py_getitem status (lit ''outputBytes''))) (\<lambda>bytes.
             print_value PBytesSent bytes))))
           else py_print PNotStreaming))
       else
         then_do (lift (py_path result [lit ''d'', lit ''requestStatus'', lit ''comment'']))
           (\<lambda>comment. print_value PStatusFailed comment)))))"

text \<open>
  Lines 159 to 167 of \<open>schedule_stream\<close>: the target instant. \<open>datetime.now()\<close> is
  read once for the year, once for the month, once for the day and once for the
  comparison.
\<close>

definition schedule_target :: "(nat \<Rightarrow> nat option) \<Rightarrow> pystr \<Rightarrow> datetime act" where
  "schedule_target nd start_time =
     then_do (lift (strptime_HM nd start_time)) (\<lambda>parsed.
     then_do now (\<lambda>n1.
     then_do now (\<lambda>n2.
     then_do now (\<lambda>n3.
     then_do (lift (dt_replace parsed (year n1) (month n2) (day n3))) (\<lambda>target_time.
     then_do now (\<lambda>n4.
       if dt_le target_time n4 then lift (dt_add_day target_time) else ret target_time))))))"

definition schedule_stream :: "(nat \<Rightarrow> nat option) \<Rightarrow> pystr \<Rightarrow> int option \<Rightarrow> unit act" where
  "schedule_stream nd start_time duration_minutes =
     try_except
       (then_do (schedule_target nd start_time) (\<lambda>target_time.
        then_do now (\<lambda>n5.
        then_do (py_print (PScheduledFor target_time)) (\<lambda>_.
        then_do (py_print (PWaiting (trunc_seconds (dt_diff_us target_time n5)))) (\<lambda>_.
        then_do (sleep (dt_diff_us target_time n5)) (\<lambda>_.
        then_do (py_print PStartingScheduled) (\<lambda>_.
        then_do start_streaming (\<lambda>_.
          (case duration_minutes of
             None \<Rightarrow> ret ()
           | Some d \<Rightarrow>
               if d = 0 then ret ()
               else
                 then_do (py_print (PWillStopIn d)) (\<lambda>_.
                 then_do (sleep (d * 60 * 1000000)) (\<lambda>_.
                 then_do (py_print PStoppingScheduled) (\<lambda>_.
                 stop_streaming))))))))))))
       (\<lambda>e. if is_ValueError e then py_print PInvalidTimeFormat
             else if is_Exception e then py_print (PSchedulingError e)
             else raise e)"

definition disconnect :: "unit act" where
  "disconnect s =
     (case websocket s of
        None \<Rightarrow> ret () s
      | Some l \<Rightarrow> then_do ws_close (\<lambda>_. py_print PDisconnected) s)"

subsection \<open>\<open>obs-auto.py\<close>\<close>

definition start_stream :: "(byte list \<Rightarrow> byte list) \<Rightarrow> unit act" where
  "start_stream H env =
     then_do (connect H) (\<lambda>ready.
       if ready then try_finally start_streaming disconnect else ret ())
     (OBSController (lit ''localhost'') 4455 (Some (lit ''Oindia001'')) env)"

definition trigger_stream_start :: "(byte list \<Rightarrow> byte list) \<Rightarrow> unit act" where
  "trigger_stream_start H = then_do (py_print PTriggering) (\<lambda>_. start_stream H)"


section \<open>Notions used in the statements\<close>

text \<open>An awaited call completes: it returns, or raises an exception derived from \<open>Exception\<close>.\<close>

fun completes :: "'a res \<Rightarrow> bool" where
  "completes (Returns x) = True"
| "completes (Raises e) = is_Exception e"
| "completes Blocks = False"

text \<open>The next \<open>send()\<close> completes.\<close>

definition next_send_completes :: "obs \<Rightarrow> bool" where
  "next_send_completes s = (case send_results s of [] \<Rightarrow> True | r # rs \<Rightarrow> completes r)"

text \<open>The test of line 42, \<open>identified_data["op"] == 2\<close>, where a missing \<open>op\<close> counts as false.\<close>

definition op_is_2 :: "json \<Rightarrow> bool" where
  "op_is_2 identified_data =
     (case py_getitem identified_data (lit ''op'') of Inl e \<Rightarrow> False | Inr v \<Rightarrow> py_eq_int v 2)"

text \<open>An action that only prints: it returns or raises, and changes nothing but the trace.\<close>

definition quiet :: "'a act \<Rightarrow> bool" where
  "quiet m =
     (\<forall>s. \<exists>ps. (\<exists>e. is_Exception e \<and> m s = (Raises e, s\<lparr>trace := trace s @ ps\<rparr>))
            \<or> (\<exists>x. m s = (Returns x, s\<lparr>trace := trace s @ ps\<rparr>)))"

text \<open>An action that only prints and then either raises or ends with one \<open>send\<close>.\<close>

definition ends_with_send :: "unit act \<Rightarrow> bool" where
  "ends_with_send m =
     (\<forall>s. \<exists>ps. (\<exists>e. is_Exception e \<and> m s = (Raises e, s\<lparr>trace := trace s @ ps\<rparr>))
            \<or> (\<exists>msg. m s = ws_send msg (s\<lparr>trace := trace s @ ps\<rparr>)))"

subsection \<open>Example environments\<close>

definition example_now :: datetime where
  "example_now =
     \<lparr>year = 2024, month = 3, day = 10, hour = 9, minute = 0, second = 0, microsecond = 0\<rparr>"

text \<open>A server that accepts the connection and then sends the messages \<open>msgs\<close>.\<close>

definition example_env :: "json list \<Rightarrow> obs" where
  "example_env msgs =
     \<lparr>host = lit ''localhost'', port = 4455, password = None, websocket = None,
      dial = Returns (), inbox = map (\<lambda>m. Returns (Payload m)) msgs, send_results = [],
      clock = (\<lambda>k. example_now), ticks = 0, trace = []\<rparr>"

definition hello_plain :: json where
  "hello_plain = JObj [(lit ''op'', JInt 0), (lit ''d'', JObj [(lit ''rpcVersion'', JInt 1)])]"

definition hello_auth :: json where
  "hello_auth =
     JObj [(lit ''op'', JInt 0),
           (lit ''d'', JObj [(lit ''rpcVersion'', JInt 1),
                             (lit ''authentication'',
                              JObj [(lit ''challenge'', JStr (lit ''c1'')),
                                    (lit ''salt'', JStr (lit ''s1''))])])]"

definition identified :: json where
  "identified = JObj [(lit ''op'', JInt 2), (lit ''d'', JObj [(lit ''negotiatedRpcVersion'', JInt 1)])]"

definition not_identified :: json where
  "not_identified = JObj [(lit ''op'', JInt 5), (lit ''d'', JObj [])]"

text \<open>The next \<open>send()\<close> returns.\<close>

definition next_send_returns :: "obs \<Rightarrow> bool" where
  "next_send_returns s = (case send_results s of [] \<Rightarrow> True | r # rs \<Rightarrow> r = Returns ())"

text \<open>A reply in which every \<open>requestId\<close> under \<open>d\<close> is replaced by \<open>rid\<close>.\<close>

definition set_key :: "pystr \<Rightarrow> json \<Rightarrow> (pystr \<times> json) list \<Rightarrow> (pystr \<times> json) list" where
  "set_key k v kvs = map (\<lambda>(k', v'). if k' = k then (k', v) else (k', v')) kvs"

definition with_request_id :: "json \<Rightarrow> json \<Rightarrow> json" where
  "with_request_id rid reply =
     (case reply of
        JObj kvs \<Rightarrow>
          JObj (map (\<lambda>(k, v).
                  if k = lit ''d''
                  then (k, (case v of JObj dkvs \<Rightarrow> JObj (set_key (lit ''requestId'') rid dkvs)
                            | _ \<Rightarrow> v))
                  else (k, v)) kvs)
      | _ \<Rightarrow> reply)"

text \<open>Replies of the server to a request: a success and a failure with a comment.\<close>

definition reply_ok :: "string \<Rightarrow> string \<Rightarrow> json" where
  "reply_ok request_type request_id =
     JObj [(lit ''op'', JInt 7),
           (lit ''d'', JObj [(lit ''requestType'', JStr (lit request_type)),
                             (lit ''requestId'', JStr (lit request_id)),
                             (lit ''requestStatus'',
                              JObj [(lit ''result'', JBool True), (lit ''code'', JInt 100)])])]"

definition reply_failed :: "string \<Rightarrow> string \<Rightarrow> string \<Rightarrow> json" where
  "reply_failed request_type request_id comment =
     JObj [(lit ''op'', JInt 7),
           (lit ''d'', JObj [(lit ''requestType'', JStr (lit request_type)),
                             (lit ''requestId'', JStr (lit request_id)),
                             (lit ''requestStatus'',
                              JObj [(lit ''result'', JBool False), (lit ''code'', JInt 500),
                                    (lit ''comment'', JStr (lit comment))])])]"

text \<open>
  A failure whose \<open>result\<close> is the number 0 and whose comment is the string that
  \<open>json.loads\<close> reads from \<^verbatim>\<open>"\ud800"\<close>, a lone surrogate.
\<close>

definition reply_unprintable :: json where
  "reply_unprintable =
     JObj [(lit ''op'', JInt 7),
           (lit ''d'', JObj [(lit ''requestType'', JStr (lit ''StartStream'')),
                             (lit ''requestId'', JStr (lit ''start-stream'')),
                             (lit ''requestStatus'',
                              JObj [(lit ''result'', JInt 0),
                                    (lit ''comment'', JStr [0xD800])])])]"

text \<open>A session whose handshake is done, with the replies \<open>msgs\<close> to come.\<close>

definition ready_env :: "json list \<Rightarrow> obs" where
  "ready_env msgs = (example_env msgs)\<lparr>websocket := Some LinkOpen\<rparr>"

subsection \<open>Dates and times of day\<close>

definition date_of :: "datetime \<Rightarrow> nat \<times> nat \<times> nat" where
  "date_of t = (year t, month t, day t)"

text \<open>The time of day \<open>a\<close> is not later than the time of day \<open>b\<close>.\<close>

definition time_of_day_le :: "datetime \<Rightarrow> datetime \<Rightarrow> bool" where
  "time_of_day_le a b =
     lex_le [hour a, minute a, second a, microsecond a]
            [hour b, minute b, second b, microsecond b]"

text \<open>A clock stopped at \<open>t\<close>, in the environment of a session that is ready.\<close>

definition frozen_env :: "datetime \<Rightarrow> json list \<Rightarrow> obs" where
  "frozen_env t msgs = (ready_env msgs)\<lparr>clock := (\<lambda>k. t)\<rparr>"

definition at_time :: "nat \<Rightarrow> nat \<Rightarrow> datetime" where
  "at_time h m =
     \<lparr>year = 2024, month = 3, day = 10, hour = h, minute = m, second = 0, microsecond = 0\<rparr>"

text \<open>
  A clock that passes midnight at the end of January between the second and the third
  reading: 2024-01-31 23:59:59.999999 twice, then 2024-02-01 00:00:00.
\<close>

definition month_end_clock :: "nat \<Rightarrow> datetime" where
  "month_end_clock k =
     (if k < 2
      then \<lparr>year = 2024, month = 1, day = 31, hour = 23, minute = 59, second = 59,
            microsecond = 999999\<rparr>
      else \<lparr>year = 2024, month = 2, day = 1, hour = 0, minute = 0, second = 0,
            microsecond = 0\<rparr>)"

definition month_end_env :: "json list \<Rightarrow> obs" where
  "month_end_env msgs = (ready_env msgs)\<lparr>clock := month_end_clock\<rparr>"


section \<open>Running actions step by step\<close>

lemma then_do_ret [simp]: "then_do (ret x) f = f x"
  by (rule ext) (simp add: then_do_def ret_def)

lemma then_do_raise [simp]: "then_do (raise e) f = raise e"
  by (rule ext) (simp add: then_do_def raise_def)

lemma lift_Inr [simp]: "lift (Inr x) = ret x"
  by (rule ext) (simp add: lift_def ret_def)

lemma lift_Inl [simp]: "lift (Inl e) = raise e"
  by (rule ext) (simp add: lift_def raise_def)

lemma then_do_emit [simp]: "then_do (emit ev) f s = f () (s\<lparr>trace := trace s @ [ev]\<rparr>)"
  by (simp add: then_do_def emit_def)

lemma then_do_get_password [simp]: "then_do get_password f s = f (password s) s"
  by (simp add: then_do_def get_password_def)

lemma then_do_now [simp]: "then_do now f s = f (clock s (ticks s)) (s\<lparr>ticks := ticks s + 1\<rparr>)"
  by (simp add: then_do_def now_def)

lemma then_do_Returns: "m s = (Returns x, s') \<Longrightarrow> then_do m f s = f x s'"
  by (simp add: then_do_def)

lemma then_do_Raises: "m s = (Raises e, s') \<Longrightarrow> then_do m f s = (Raises e, s')"
  by (simp add: then_do_def)

lemma then_do_Blocks: "m s = (Blocks, s') \<Longrightarrow> then_do m f s = (Blocks, s')"
  by (simp add: then_do_def)

subsection \<open>Actions that only print\<close>

lemma quiet_ret: "quiet (ret x)"
  unfolding quiet_def ret_def
  by (intro allI exI[of _ "[]"]) simp

lemma quiet_raise: "is_Exception e \<Longrightarrow> quiet (raise e)"
  unfolding quiet_def raise_def
  by (intro allI exI[of _ "[]"]) simp

lemma quiet_lift: "(\<And>e. r = Inl e \<Longrightarrow> is_Exception e) \<Longrightarrow> quiet (lift r)"
  by (cases r) (simp_all add: quiet_ret quiet_raise)

lemma quiet_print: "quiet (py_print p)"
  unfolding quiet_def py_print_def emit_def
  by (intro allI exI[of _ "[Printed p]"]) simp

lemma quiet_get_password: "quiet get_password"
  unfolding quiet_def get_password_def
  by (intro allI exI[of _ "[]"]) simp

lemma quiet_then_do:
  assumes "quiet m" and "\<And>x. quiet (f x)"
  shows "quiet (then_do m f)"
  unfolding quiet_def
proof
  fix s
  from assms(1) obtain ps where
    m: "(\<exists>e. is_Exception e \<and> m s = (Raises e, s\<lparr>trace := trace s @ ps\<rparr>))
        \<or> (\<exists>x. m s = (Returns x, s\<lparr>trace := trace s @ ps\<rparr>))"
    unfolding quiet_def by blast
  let ?s1 = "s\<lparr>trace := trace s @ ps\<rparr>"
  from m show "\<exists>qs. (\<exists>e. is_Exception e \<and> then_do m f s = (Raises e, s\<lparr>trace := trace s @ qs\<rparr>))
                 \<or> (\<exists>y. then_do m f s = (Returns y, s\<lparr>trace := trace s @ qs\<rparr>))"
  proof
    assume "\<exists>e. is_Exception e \<and> m s = (Raises e, ?s1)"
    then show ?thesis by (auto simp: then_do_Raises)
  next
    assume "\<exists>x. m s = (Returns x, ?s1)"
    then obtain x where x: "m s = (Returns x, ?s1)" by blast
    from assms(2)[of x] obtain qs where
      f: "(\<exists>e. is_Exception e \<and> f x ?s1 = (Raises e, ?s1\<lparr>trace := trace ?s1 @ qs\<rparr>))
          \<or> (\<exists>y. f x ?s1 = (Returns y, ?s1\<lparr>trace := trace ?s1 @ qs\<rparr>))"
      unfolding quiet_def by blast
    have "then_do m f s = f x ?s1" using x by (rule then_do_Returns)
    with f show ?thesis
      by (intro exI[of _ "ps @ qs"]) auto
  qed
qed

lemma py_getitem_exn: "py_getitem x k = Inl e \<Longrightarrow> is_Exception e"
  by (cases x) (auto split: option.splits)

lemma py_in_exn: "py_in k x = Inl e \<Longrightarrow> is_Exception e"
  by (cases x) auto

lemma py_str_add_exn: "py_str_add s x = Inl e \<Longrightarrow> is_Exception e"
  by (cases x) auto

lemma auth_response_exn: "auth_response H p salt challenge = Inl e \<Longrightarrow> is_Exception e"
  by (auto simp: auth_response_def bindE_def encode_or_raise_def decode_or_raise_def
           split: sum.splits option.splits dest: py_str_add_exn)

lemma quiet_getitem: "quiet (lift (py_getitem x k))"
  by (rule quiet_lift) (rule py_getitem_exn)

lemma quiet_py_in: "quiet (lift (py_in k x))"
  by (rule quiet_lift) (rule py_in_exn)

lemma quiet_auth_response: "quiet (lift (auth_response H p salt challenge))"
  by (rule quiet_lift) (rule auth_response_exn)

lemma quiet_if: "quiet a \<Longrightarrow> quiet b \<Longrightarrow> quiet (if c then a else b)"
  by simp

lemma quiet_case_option:
  "quiet a \<Longrightarrow> (\<And>x. quiet (b x)) \<Longrightarrow> quiet (case v of None \<Rightarrow> a | Some x \<Rightarrow> b x)"
  by (cases v) simp_all

lemmas quiet_intros = quiet_then_do quiet_ret quiet_print quiet_get_password
  quiet_getitem quiet_py_in quiet_auth_response quiet_if quiet_case_option

lemma ends_with_send_ws_send: "ends_with_send (ws_send msg)"
  unfolding ends_with_send_def
  by (intro allI exI[of _ "[]"]) auto

lemma ends_with_send_then_do:
  assumes "quiet m" and "\<And>x. ends_with_send (f x)"
  shows "ends_with_send (then_do m f)"
  unfolding ends_with_send_def
proof
  fix s
  from assms(1) obtain ps where
    m: "(\<exists>e. is_Exception e \<and> m s = (Raises e, s\<lparr>trace := trace s @ ps\<rparr>))
        \<or> (\<exists>x. m s = (Returns x, s\<lparr>trace := trace s @ ps\<rparr>))"
    unfolding quiet_def by blast
  let ?s1 = "s\<lparr>trace := trace s @ ps\<rparr>"
  from m show "\<exists>qs. (\<exists>e. is_Exception e \<and> then_do m f s = (Raises e, s\<lparr>trace := trace s @ qs\<rparr>))
                 \<or> (\<exists>msg. then_do m f s = ws_send msg (s\<lparr>trace := trace s @ qs\<rparr>))"
  proof
    assume "\<exists>e. is_Exception e \<and> m s = (Raises e, ?s1)"
    then show ?thesis by (auto simp: then_do_Raises)
  next
    assume "\<exists>x. m s = (Returns x, ?s1)"
    then obtain x where x: "m s = (Returns x, ?s1)" by blast
    from assms(2)[of x] obtain qs where
      f: "(\<exists>e. is_Exception e \<and> f x ?s1 = (Raises e, ?s1\<lparr>trace := trace ?s1 @ qs\<rparr>))
          \<or> (\<exists>msg. f x ?s1 = ws_send msg (?s1\<lparr>trace := trace ?s1 @ qs\<rparr>))"
      unfolding ends_with_send_def by blast
    have "then_do m f s = f x ?s1" using x by (rule then_do_Returns)
    with f show ?thesis
      by (intro exI[of _ "ps @ qs"]) auto
  qed
qed

lemma send_identify_ends_with_send: "ends_with_send (send_identify H hello)"
  unfolding send_identify_def
  by (intro ends_with_send_then_do ends_with_send_ws_send quiet_intros quiet_raise) simp_all


section \<open>The handshake step by step\<close>

lemma receive_hello_ok:
  assumes "dial s = Returns ()" and "inbox s = Returns (Payload hello) # rs"
  shows "receive_hello s =
           (Returns hello,
            s\<lparr>websocket := Some LinkOpen, inbox := rs,
              trace := trace s @ [Printed (PConnected (host s) (port s)), Printed PReceivedHello]\<rparr>)"
  using assms
  by (simp add: receive_hello_def then_do_def ws_connect_def ws_recv_def py_print_def emit_def
        json_loads_def ret_def)

lemma ws_send_open:
  assumes "websocket s = Some LinkOpen"
  shows "ws_send msg s =
           (case send_results s of
              [] \<Rightarrow> (Returns (), s\<lparr>trace := trace s @ [Sent msg]\<rparr>)
            | r # rs \<Rightarrow>
                (case r of
                   Returns u \<Rightarrow> (Returns (), s\<lparr>send_results := rs, trace := trace s @ [Sent msg]\<rparr>)
                 | Raises e \<Rightarrow> (Raises e, s\<lparr>send_results := rs\<rparr>)
                 | Blocks \<Rightarrow> (Blocks, s\<lparr>send_results := rs\<rparr>)))"
  using assms by (simp add: ws_send_def)

lemma ws_recv_open:
  assumes "websocket s = Some LinkOpen" and "inbox s = r # rs"
  shows "ws_recv s = (r, s\<lparr>inbox := rs\<rparr>)"
  using assms by (simp add: ws_recv_def)

text \<open>What \<open>send\<close> leaves behind on an open connection whose next send completes.\<close>

lemma ws_send_completes:
  assumes "websocket s = Some LinkOpen" and "next_send_completes s"
  obtains s' where "ws_send msg s = (Returns (), s')" "websocket s' = websocket s"
      "inbox s' = inbox s"
    | e s' where "ws_send msg s = (Raises e, s')" "is_Exception e"
proof (cases "send_results s")
  case Nil
  with assms(1) have "ws_send msg s = (Returns (), s\<lparr>trace := trace s @ [Sent msg]\<rparr>)"
    by (simp add: ws_send_open)
  then show ?thesis by (rule that(1)) simp_all
next
  case (Cons r rs)
  show ?thesis
  proof (cases r)
    case (Returns u)
    with Cons assms(1) have
      "ws_send msg s = (Returns (), s\<lparr>send_results := rs, trace := trace s @ [Sent msg]\<rparr>)"
      by (simp add: ws_send_open)
    then show ?thesis by (rule that(1)) simp_all
  next
    case (Raises e)
    with Cons assms(1) have "ws_send msg s = (Raises e, s\<lparr>send_results := rs\<rparr>)"
      by (simp add: ws_send_open)
    moreover from Raises Cons assms(2) have "is_Exception e"
      by (simp add: next_send_completes_def)
    ultimately show ?thesis by (rule that(2))
  next
    case Blocks
    with Cons assms(2) show ?thesis by (simp add: next_send_completes_def)
  qed
qed

lemma send_identify_completes:
  assumes "websocket s = Some LinkOpen" and "next_send_completes s"
  obtains s' where "send_identify H hello s = (Returns (), s')" "websocket s' = websocket s"
      "inbox s' = inbox s"
    | e s' where "send_identify H hello s = (Raises e, s')" "is_Exception e"
proof -
  from send_identify_ends_with_send[of H hello] obtain ps where
    sh: "(\<exists>e. is_Exception e \<and> send_identify H hello s = (Raises e, s\<lparr>trace := trace s @ ps\<rparr>))
         \<or> (\<exists>msg. send_identify H hello s = ws_send msg (s\<lparr>trace := trace s @ ps\<rparr>))"
    unfolding ends_with_send_def by blast
  let ?s1 = "s\<lparr>trace := trace s @ ps\<rparr>"
  from sh show ?thesis
  proof
    assume "\<exists>e. is_Exception e \<and> send_identify H hello s = (Raises e, ?s1)"
    then show ?thesis using that(2) by blast
  next
    assume "\<exists>msg. send_identify H hello s = ws_send msg ?s1"
    then obtain msg where msg: "send_identify H hello s = ws_send msg ?s1" by blast
    have o: "websocket ?s1 = Some LinkOpen" using assms(1) by simp
    have n: "next_send_completes ?s1" using assms(2) by (simp add: next_send_completes_def)
    show ?thesis
    proof (rule ws_send_completes[OF o n, of msg])
      fix s' assume "ws_send msg ?s1 = (Returns (), s')" "websocket s' = websocket ?s1"
        "inbox s' = inbox ?s1"
      then show ?thesis using msg that(1) by simp
    next
      fix e s' assume "ws_send msg ?s1 = (Raises e, s')" "is_Exception e"
      then show ?thesis using msg that(2) by simp
    qed
  qed
qed

text \<open>Reading the Identified message when it is there.\<close>

lemma receive_identified_payload:
  assumes "websocket s = Some LinkOpen" and "inbox s = Returns (Payload ack) # rs"
  shows "receive_identified s =
           (case py_getitem ack (lit ''op'') of
              Inl e \<Rightarrow> (Raises e, s\<lparr>inbox := rs\<rparr>)
            | Inr v \<Rightarrow>
                if py_eq_int v 2
                then (Returns True, s\<lparr>inbox := rs, trace := trace s @ [Printed PIdentified]\<rparr>)
                else (Returns False,
                      s\<lparr>inbox := rs, trace := trace s @ [Printed (PFailedIdentify ack)]\<rparr>))"
  using assms
  by (simp add: receive_identified_def then_do_def ws_recv_def json_loads_def
        py_print_def emit_def ret_def raise_def split: sum.splits)

lemma connect_of_Returns:
  "connect_try H s = (Returns b, s') \<Longrightarrow> connect H s = (Returns b, s')"
  by (simp add: connect_def try_except_def)

lemma connect_of_Blocks:
  "connect_try H s = (Blocks, s') \<Longrightarrow> connect H s = (Blocks, s')"
  by (simp add: connect_def try_except_def)

lemma connect_of_Raises:
  "connect_try H s = (Raises e, s') \<Longrightarrow> connect H s = connect_except e s'"
  by (simp add: connect_def try_except_def)

lemma connect_except_Exception:
  "is_Exception e \<Longrightarrow> fst (connect_except e s) = Returns False"
  by (simp add: connect_except_def py_print_def ret_def)

lemma connect_of_Exception:
  "connect_try H s = (Raises e, s') \<Longrightarrow> is_Exception e \<Longrightarrow> fst (connect H s) = Returns False"
  by (simp add: connect_of_Raises connect_except_Exception)


section \<open>Claims about the handshake\<close>

text \<open>
  C7. When the Identified message that answers the Identify message has an \<open>op\<close> field
  that is not 2 (or none at all), \<open>connect()\<close> returns \<open>False\<close>: the server accepted
  the connection, the Hello and the answer arrive, and the send of the Identify message
  completes.
\<close>

theorem connect_false_unless_op_2:
  assumes "dial s = Returns ()"
    and "inbox s = Returns (Payload hello) # Returns (Payload ack) # rest"
    and "next_send_completes s"
    and "\<not> op_is_2 ack"
  shows "fst (connect H s) = Returns False"
proof -
  let ?s1 = "s\<lparr>websocket := Some LinkOpen, inbox := Returns (Payload ack) # rest,
               trace := trace s @ [Printed (PConnected (host s) (port s)), Printed PReceivedHello]\<rparr>"
  have hello: "receive_hello s = (Returns hello, ?s1)"
    using assms(1,2) by (rule receive_hello_ok)
  have tr: "connect_try H s = then_do (send_identify H hello) (\<lambda>_. receive_identified) ?s1"
    unfolding connect_try_def using hello by (rule then_do_Returns)
  have o: "websocket ?s1 = Some LinkOpen" by simp
  have n: "next_send_completes ?s1" using assms(3) by (simp add: next_send_completes_def)
  show ?thesis
  proof (rule send_identify_completes[OF o n, of H hello])
    fix s2 assume sent: "send_identify H hello ?s1 = (Returns (), s2)"
      and w: "websocket s2 = websocket ?s1" and i: "inbox s2 = inbox ?s1"
    have w2: "websocket s2 = Some LinkOpen" using w by simp
    have i2: "inbox s2 = Returns (Payload ack) # rest" using i by simp
    have "connect_try H s = receive_identified s2"
      using tr sent by (simp add: then_do_Returns)
    also note receive_identified_payload[OF w2 i2]
    finally have r: "connect_try H s =
        (case py_getitem ack (lit ''op'') of
           Inl e \<Rightarrow> (Raises e, s2\<lparr>inbox := rest\<rparr>)
         | Inr v \<Rightarrow>
             if py_eq_int v 2
             then (Returns True, s2\<lparr>inbox := rest, trace := trace s2 @ [Printed PIdentified]\<rparr>)
             else (Returns False,
                   s2\<lparr>inbox := rest, trace := trace s2 @ [Printed (PFailedIdentify ack)]\<rparr>))" .
    show ?thesis
    proof (cases "py_getitem ack (lit ''op'')")
      case (Inl e)
      then have "connect_try H s = (Raises e, s2\<lparr>inbox := rest\<rparr>)" using r by simp
      moreover have "is_Exception e" using Inl by (rule py_getitem_exn)
      ultimately show ?thesis by (rule connect_of_Exception)
    next
      case (Inr v)
      with assms(4) have "\<not> py_eq_int v 2" by (simp add: op_is_2_def)
      with Inr r have "connect_try H s =
          (Returns False, s2\<lparr>inbox := rest, trace := trace s2 @ [Printed (PFailedIdentify ack)]\<rparr>)"
        by simp
      then have "connect H s =
          (Returns False, s2\<lparr>inbox := rest, trace := trace s2 @ [Printed (PFailedIdentify ack)]\<rparr>)"
        by (rule connect_of_Returns)
      then show ?thesis by simp
    qed
  next
    fix e s2 assume "send_identify H hello ?s1 = (Raises e, s2)" and ex: "is_Exception e"
    then have "connect_try H s = (Raises e, s2)" using tr by (simp add: then_do_Raises)
    then show ?thesis using ex by (rule connect_of_Exception)
  qed
qed

theorem connect_false_unless_op_2_witness:
  "dial (example_env [hello_plain, not_identified]) = Returns ()
   \<and> inbox (example_env [hello_plain, not_identified])
       = Returns (Payload hello_plain) # Returns (Payload not_identified) # []
   \<and> next_send_completes (example_env [hello_plain, not_identified])
   \<and> \<not> op_is_2 not_identified
   \<and> fst (connect id (example_env [hello_plain, not_identified])) = Returns False"
proof -
  have a: "dial (example_env [hello_plain, not_identified]) = Returns ()"
    by (simp add: example_env_def)
  have b: "inbox (example_env [hello_plain, not_identified])
       = Returns (Payload hello_plain) # Returns (Payload not_identified) # []"
    by (simp add: example_env_def)
  have c: "next_send_completes (example_env [hello_plain, not_identified])"
    by (simp add: example_env_def next_send_completes_def)
  have d: "\<not> op_is_2 not_identified"
    by (simp add: op_is_2_def not_identified_def lit_def)
  from connect_false_unless_op_2[OF a b c d] a b c d show ?thesis by simp
qed


text \<open>Reading a path of keys succeeds only if each step does.\<close>

lemma py_path3:
  assumes "py_path x [k1, k2, k3] = Inr v"
  obtains y z where "py_getitem x k1 = Inr y" "py_getitem y k2 = Inr z" "py_getitem z k3 = Inr v"
  using assms by (auto simp: bindE_def split: sum.splits)

lemma py_getitem_in: "py_getitem x k = Inr v \<Longrightarrow> py_in k x = Inr True"
  by (cases x) (auto split: option.splits)

text \<open>
  C4. When the Hello message carries an authentication challenge (\<open>challenge\<close> and
  \<open>salt\<close> under \<open>d.authentication\<close>) and no password is configured (\<open>None\<close> or the
  empty string), \<open>_send_identify\<close> raises the exception "Authentication required but no
  password provided" before it sends anything, and \<open>connect()\<close> returns \<open>False\<close>
  with a trace that holds four printed lines and no sent message.
\<close>

theorem connect_auth_required_sends_nothing:
  assumes "py_path hello [lit ''d'', lit ''authentication'', lit ''challenge''] = Inr challenge"
    and "py_path hello [lit ''d'', lit ''authentication'', lit ''salt''] = Inr salt"
    and "password s = None \<or> password s = Some []"
    and "dial s = Returns ()"
    and "inbox s = Returns (Payload hello) # rest"
  shows "send_identify H hello s =
           (Raises (PlainException ''Authentication required but no password provided''),
            s\<lparr>trace := trace s @ [Printed PAuthRequired]\<rparr>)
         \<and> connect H s =
           (Returns False,
            s\<lparr>websocket := Some LinkOpen, inbox := rest,
              trace := trace s @
                [Printed (PConnected (host s) (port s)), Printed PReceivedHello,
                 Printed PAuthRequired,
                 Printed (PConnectionError
                   (PlainException ''Authentication required but no password provided''))]\<rparr>)"
proof -
  from assms(1) obtain d a where
    d: "py_getitem hello (lit ''d'') = Inr d" and
    a: "py_getitem d (lit ''authentication'') = Inr a" and
    c: "py_getitem a (lit ''challenge'') = Inr challenge"
    by (rule py_path3)
  from assms(2) d a have sl: "py_getitem a (lit ''salt'') = Inr salt"
    by (simp add: bindE_def split: sum.splits)
  have req: "py_in (lit ''authentication'') d = Inr True"
    using a by (rule py_getitem_in)
  have ident: "send_identify H hello t =
      (Raises (PlainException ''Authentication required but no password provided''),
       t\<lparr>trace := trace t @ [Printed PAuthRequired]\<rparr>)"
    if "password t = None \<or> password t = Some []" for t
    using that d a c sl req
    by (auto simp: send_identify_def py_print_def raise_def then_do_def emit_def
          get_password_def)
  let ?s1 = "s\<lparr>websocket := Some LinkOpen, inbox := rest,
               trace := trace s @ [Printed (PConnected (host s) (port s)), Printed PReceivedHello]\<rparr>"
  have hello: "receive_hello s = (Returns hello, ?s1)"
    using assms(4,5) by (rule receive_hello_ok)
  have "connect_try H s = then_do (send_identify H hello) (\<lambda>_. receive_identified) ?s1"
    unfolding connect_try_def using hello by (rule then_do_Returns)
  also have "\<dots> = (Raises (PlainException ''Authentication required but no password provided''),
       ?s1\<lparr>trace := trace ?s1 @ [Printed PAuthRequired]\<rparr>)"
    by (rule then_do_Raises, rule ident) (use assms(3) in simp)
  finally have "connect H s =
      connect_except (PlainException ''Authentication required but no password provided'')
        (?s1\<lparr>trace := trace ?s1 @ [Printed PAuthRequired]\<rparr>)"
    by (rule connect_of_Raises)
  then have "connect H s =
      (Returns False,
       s\<lparr>websocket := Some LinkOpen, inbox := rest,
         trace := trace s @
           [Printed (PConnected (host s) (port s)), Printed PReceivedHello,
            Printed PAuthRequired,
            Printed (PConnectionError
              (PlainException ''Authentication required but no password provided''))]\<rparr>)"
    by (simp add: connect_except_def py_print_def ret_def)
  with ident[OF assms(3)] show ?thesis by simp
qed

theorem connect_auth_required_sends_nothing_witness:
  "connect id (example_env [hello_auth]) =
     (Returns False,
      (example_env [hello_auth])\<lparr>websocket := Some LinkOpen, inbox := [],
         trace :=
           [Printed (PConnected (lit ''localhost'') 4455), Printed PReceivedHello,
            Printed PAuthRequired,
            Printed (PConnectionError
              (PlainException ''Authentication required but no password provided''))]\<rparr>)"
proof -
  have a: "py_path hello_auth [lit ''d'', lit ''authentication'', lit ''challenge'']
             = Inr (JStr (lit ''c1''))"
    by (simp add: hello_auth_def bindE_def lit_def)
  have b: "py_path hello_auth [lit ''d'', lit ''authentication'', lit ''salt'']
             = Inr (JStr (lit ''s1''))"
    by (simp add: hello_auth_def bindE_def lit_def)
  have c: "password (example_env [hello_auth]) = None \<or> password (example_env [hello_auth]) = Some []"
    by (simp add: example_env_def)
  have d: "dial (example_env [hello_auth]) = Returns ()"
    by (simp add: example_env_def)
  have e: "inbox (example_env [hello_auth]) = Returns (Payload hello_auth) # []"
    by (simp add: example_env_def)
  from connect_auth_required_sends_nothing[OF a b c d e, of id]
  show ?thesis by (simp add: example_env_def)
qed


section \<open>The authentication token\<close>

lemma b64_alphabet_ascii: "list_all (\<lambda>c. c < 128) b64_alphabet"
  by (simp add: b64_alphabet_def lit_def)

lemma b64_alphabet_length: "length b64_alphabet = 64"
  by (simp add: b64_alphabet_def lit_def)

lemma b64_digit_ascii: "unat (b64_digit i) < 128"
proof -
  have "i mod 64 < length b64_alphabet" by (simp add: b64_alphabet_length)
  then have "b64_alphabet ! (i mod 64) \<in> set b64_alphabet" by (rule nth_mem)
  with b64_alphabet_ascii have lt: "b64_alphabet ! (i mod 64) < 128"
    by (simp add: list_all_iff)
  then have "unat (of_nat (b64_alphabet ! (i mod 64)) :: byte) = b64_alphabet ! (i mod 64)"
    by (simp add: unat_of_nat)
  with lt show ?thesis by (simp add: b64_digit_def)
qed

lemma b64_pad_ascii: "unat b64_pad < 128"
  by (simp add: b64_pad_def)

lemma b64encode_ascii: "list_all (\<lambda>b. unat b < 128) (b64encode bs)"
  by (induction bs rule: b64encode.induct) (simp_all add: b64_digit_ascii b64_pad_ascii)

lemma bytes_decode_ascii:
  "list_all (\<lambda>b. unat b < 128) bs \<Longrightarrow> bytes_decode bs = Some (map unat bs)"
  by (induction bs) simp_all

lemma utf8_char_ascii: "unat (b :: byte) < 128 \<Longrightarrow> utf8_char (unat b) = Some [b]"
  by (simp add: utf8_char_def)

lemma str_encode_ascii:
  "list_all (\<lambda>b. unat b < 128) bs \<Longrightarrow> str_encode (map unat bs) = Some bs"
  by (induction bs) (simp_all add: utf8_char_ascii)

lemma str_encode_append:
  "str_encode (a @ b) =
     (case str_encode a of
        None \<Rightarrow> None
      | Some x \<Rightarrow> (case str_encode b of None \<Rightarrow> None | Some y \<Rightarrow> Some (x @ y)))"
  by (induction a) (auto split: option.splits)

text \<open>The text of a base64 encoding, and its bytes again.\<close>

lemma decode_b64encode: "decode_or_raise (b64encode bs) = Inr (map unat (b64encode bs))"
  by (simp add: decode_or_raise_def bytes_decode_ascii b64encode_ascii)

lemma encode_b64_text_append:
  "encode_or_raise (map unat (b64encode bs) @ c) =
     (case str_encode c of
        None \<Rightarrow> Inl UnicodeEncodeError
      | Some y \<Rightarrow> Inr (b64encode bs @ y))"
  by (simp add: encode_or_raise_def str_encode_append str_encode_ascii b64encode_ascii
           split: option.splits)

lemma auth_response_spec:
  "auth_response H secret (JStr salt) (JStr challenge) =
     (case spec_token H secret salt challenge of
        None \<Rightarrow> Inl UnicodeEncodeError
      | Some tok \<Rightarrow> Inr (map unat tok))"
proof (cases "str_encode (secret @ salt)")
  case None
  then show ?thesis
    by (simp add: auth_response_def spec_token_def bindE_def encode_or_raise_def)
next
  case (Some x)
  then have e1: "encode_or_raise (secret @ salt) = Inr x"
    by (simp add: encode_or_raise_def)
  show ?thesis
    using Some
    by (simp add: auth_response_def spec_token_def bindE_def e1 decode_b64encode
          encode_b64_text_append split: option.splits)
qed

text \<open>
  C1. When the Hello message carries a challenge and a salt that are strings and a
  non-empty password is configured, the \<open>authentication\<close> field of the Identify message
  that \<open>_send_identify\<close> hands to \<open>send\<close> is the text of
  base64(H(base64(H(UTF8(secret + salt))) + UTF8(challenge))), for every digest function
  \<open>H\<close> in the place of SHA-256; when \<open>secret + salt\<close> or \<open>challenge\<close> has no UTF-8
  encoding (a lone surrogate), \<open>UnicodeEncodeError\<close> is raised and nothing is sent.
\<close>

theorem identify_token_is_spec_token:
  assumes "py_path hello [lit ''d'', lit ''authentication'', lit ''challenge'']
             = Inr (JStr challenge)"
    and "py_path hello [lit ''d'', lit ''authentication'', lit ''salt''] = Inr (JStr salt)"
    and "password s = Some secret"
    and "secret \<noteq> []"
  shows "send_identify H hello s =
           (case spec_token H secret salt challenge of
              None \<Rightarrow> (Raises UnicodeEncodeError, s)
            | Some tok \<Rightarrow>
                ws_send
                  (JObj [(lit ''op'', JInt 1),
                         (lit ''d'', JObj [(lit ''rpcVersion'', JInt 1),
                                           (lit ''authentication'', JStr (map unat tok))])])
                  (s\<lparr>trace := trace s @ [Printed PAuthIncluded]\<rparr>))"
proof -
  from assms(1) obtain d a where
    d: "py_getitem hello (lit ''d'') = Inr d" and
    a: "py_getitem d (lit ''authentication'') = Inr a" and
    c: "py_getitem a (lit ''challenge'') = Inr (JStr challenge)"
    by (rule py_path3)
  from assms(2) d a have sl: "py_getitem a (lit ''salt'') = Inr (JStr salt)"
    by (simp add: bindE_def split: sum.splits)
  have req: "py_in (lit ''authentication'') d = Inr True"
    using a by (rule py_getitem_in)
  show ?thesis
    using d a c sl req assms(3,4)
    by (simp add: send_identify_def auth_response_spec identify_message_def py_print_def
          raise_def then_do_def emit_def get_password_def ret_def lift_def
          split: option.splits)
qed

theorem identify_token_is_spec_token_witness:
  "send_identify id hello_auth
     ((example_env [])\<lparr>password := Some (lit ''pw''), websocket := Some LinkOpen\<rparr>) =
   (Returns (),
    (example_env [])\<lparr>password := Some (lit ''pw''), websocket := Some LinkOpen,
       trace :=
         [Printed PAuthIncluded,
          Sent (JObj [(lit ''op'', JInt 1),
                      (lit ''d'', JObj [(lit ''rpcVersion'', JInt 1),
                                        (lit ''authentication'',
                                         JStr (lit ''Y0hkek1RPT1jMQ==''))])])]\<rparr>)"
proof -
  let ?s = "(example_env [])\<lparr>password := Some (lit ''pw''), websocket := Some LinkOpen\<rparr>"
  have a: "py_path hello_auth [lit ''d'', lit ''authentication'', lit ''challenge'']
             = Inr (JStr (lit ''c1''))"
    by (simp add: hello_auth_def bindE_def lit_def)
  have b: "py_path hello_auth [lit ''d'', lit ''authentication'', lit ''salt'']
             = Inr (JStr (lit ''s1''))"
    by (simp add: hello_auth_def bindE_def lit_def)
  have c: "password ?s = Some (lit ''pw'')" by simp
  have d: "lit ''pw'' \<noteq> []" by (simp add: lit_def)
  have tok: "spec_token id (lit ''pw'') (lit ''s1'') (lit ''c1'')
               = Some (map of_nat (lit ''Y0hkek1RPT1jMQ==''))"
    by (simp add: spec_token_def lit_def utf8_char_def b64_digit_def b64_alphabet_def b64_pad_def)
  have tx: "map unat (map of_nat (lit ''Y0hkek1RPT1jMQ=='') :: byte list) = lit ''Y0hkek1RPT1jMQ==''"
    by (simp add: lit_def)
  from identify_token_is_spec_token[OF a b c d, of id]
  show ?thesis
    unfolding tok option.case tx
    by (simp add: ws_send_def example_env_def)
qed


section \<open>\<open>connect()\<close> as a whole\<close>

lemma then_do_Returns_inv:
  assumes "then_do m f s = (Returns y, s'')"
  obtains x s' where "m s = (Returns x, s')" "f x s' = (Returns y, s'')"
  using assms by (auto simp: then_do_def split: prod.splits res.splits)

lemma receive_hello_Returns_inv:
  assumes "receive_hello s = (Returns hello, s1)"
  shows "dial s = Returns () \<and> (\<exists>rs. inbox s = Returns (Payload hello) # rs \<and> inbox s1 = rs)
         \<and> websocket s1 = Some LinkOpen \<and> send_results s1 = send_results s"
  using assms
  by (auto simp: receive_hello_def then_do_def ws_connect_def ws_recv_def py_print_def emit_def
        json_loads_def ret_def raise_def lift_def
      split: res.splits list.splits wire.splits prod.splits)

lemma ws_send_Returns_inv:
  assumes "ws_send msg s = (Returns (), s')"
  shows "websocket s = Some LinkOpen \<and> websocket s' = websocket s \<and> inbox s' = inbox s"
  using assms
  by (auto simp: ws_send_def split: option.splits link.splits list.splits res.splits)

lemma send_identify_Returns_inv:
  assumes "send_identify H hello s = (Returns (), s')"
  shows "websocket s = Some LinkOpen \<and> websocket s' = websocket s \<and> inbox s' = inbox s"
proof -
  from send_identify_ends_with_send[of H hello] obtain ps where
    sh: "(\<exists>e. is_Exception e \<and> send_identify H hello s = (Raises e, s\<lparr>trace := trace s @ ps\<rparr>))
         \<or> (\<exists>msg. send_identify H hello s = ws_send msg (s\<lparr>trace := trace s @ ps\<rparr>))"
    unfolding ends_with_send_def by blast
  with assms obtain msg where "ws_send msg (s\<lparr>trace := trace s @ ps\<rparr>) = (Returns (), s')"
    by auto
  from ws_send_Returns_inv[OF this] show ?thesis by simp
qed

lemma receive_identified_True_inv:
  assumes "receive_identified s = (Returns True, s')"
  shows "\<exists>ack rs. inbox s = Returns (Payload ack) # rs \<and> op_is_2 ack"
  using assms
  by (auto simp: receive_identified_def then_do_def ws_recv_def py_print_def emit_def
        json_loads_def ret_def raise_def lift_def op_is_2_def
      split: res.splits list.splits wire.splits prod.splits option.splits link.splits
        sum.splits if_splits)

lemma connect_except_not_True: "fst (connect_except e s) \<noteq> Returns True"
  by (simp add: connect_except_def py_print_def ret_def raise_def)

text \<open>\<open>connect()\<close> returns \<open>True\<close> only on an answer whose \<open>op\<close> is 2.\<close>

lemma connect_True_only:
  assumes "fst (connect H s) = Returns True"
  shows "\<exists>hello ack rest. dial s = Returns ()
           \<and> inbox s = Returns (Payload hello) # Returns (Payload ack) # rest \<and> op_is_2 ack"
proof -
  obtain r t where rt: "connect_try H s = (r, t)" by (cases "connect_try H s")
  have "r = Returns True"
  proof (cases r)
    case (Returns b)
    with rt have "connect H s = (Returns b, t)" by (simp add: connect_of_Returns)
    with assms Returns show ?thesis by simp
  next
    case (Raises e)
    with rt have "connect H s = connect_except e t" by (simp add: connect_of_Raises)
    with assms connect_except_not_True[of e t] show ?thesis by simp
  next
    case Blocks
    with rt have "connect H s = (Blocks, t)" by (simp add: connect_of_Blocks)
    with assms show ?thesis by simp
  qed
  with rt have tr: "connect_try H s = (Returns True, t)" by simp
  from tr obtain hello s1 where
    h: "receive_hello s = (Returns hello, s1)" and
    rest1: "then_do (send_identify H hello) (\<lambda>_. receive_identified) s1 = (Returns True, t)"
    unfolding connect_try_def by (rule then_do_Returns_inv)
  from rest1 obtain u s2 where
    i: "send_identify H hello s1 = (Returns u, s2)" and
    a: "receive_identified s2 = (Returns True, t)"
    by (rule then_do_Returns_inv)
  from receive_hello_Returns_inv[OF h] obtain rs where
    d: "dial s = Returns ()" and inb: "inbox s = Returns (Payload hello) # rs" and
    inb1: "inbox s1 = rs"
    by blast
  from i have "send_identify H hello s1 = (Returns (), s2)" by simp
  from send_identify_Returns_inv[OF this] have "inbox s2 = rs" using inb1 by simp
  with receive_identified_True_inv[OF a] obtain ack rest where
    "rs = Returns (Payload ack) # rest" "op_is_2 ack"
    by auto
  with d inb show ?thesis by blast
qed

lemma receive_hello_completes:
  assumes "completes (dial s)" and "inbox s = r # rs" and "completes r"
  obtains hello s1 where "receive_hello s = (Returns hello, s1)" "websocket s1 = Some LinkOpen"
      "inbox s1 = rs" "send_results s1 = send_results s"
    | e s1 where "receive_hello s = (Raises e, s1)" "is_Exception e"
proof (cases "dial s")
  case (Returns u)
  show ?thesis
  proof (cases r)
    case r: (Returns w)
    show ?thesis
    proof (cases w)
      case (Payload hello)
      with r Returns assms(2) have
        "receive_hello s = (Returns hello,
            s\<lparr>websocket := Some LinkOpen, inbox := rs,
              trace := trace s @ [Printed (PConnected (host s) (port s)), Printed PReceivedHello]\<rparr>)"
        by (simp add: receive_hello_ok)
      then show ?thesis by (rule that(1)) simp_all
    next
      case NotJson
      with r Returns assms(2) have
        "receive_hello s = (Raises JSONDecodeError,
            s\<lparr>websocket := Some LinkOpen, inbox := rs,
              trace := trace s @ [Printed (PConnected (host s) (port s))]\<rparr>)"
        by (simp add: receive_hello_def then_do_def ws_connect_def ws_recv_def py_print_def
              emit_def json_loads_def raise_def)
      then show ?thesis by (rule that(2)) simp
    qed
  next
    case (Raises e)
    with Returns assms(2) have
      "receive_hello s = (Raises e,
          s\<lparr>websocket := Some LinkOpen, inbox := rs,
            trace := trace s @ [Printed (PConnected (host s) (port s))]\<rparr>)"
      by (simp add: receive_hello_def then_do_def ws_connect_def ws_recv_def py_print_def
            emit_def)
    moreover from Raises assms(3) have "is_Exception e" by simp
    ultimately show ?thesis by (rule that(2))
  next
    case Blocks
    with assms(3) show ?thesis by simp
  qed
next
  case (Raises e)
  then have "receive_hello s = (Raises e, s)"
    by (simp add: receive_hello_def then_do_def ws_connect_def)
  moreover from Raises assms(1) have "is_Exception e" by simp
  ultimately show ?thesis by (rule that(2))
next
  case Blocks
  with assms(1) show ?thesis by simp
qed

lemma receive_identified_completes:
  assumes "websocket s = Some LinkOpen" and "inbox s = r # rs" and "completes r"
  obtains b s' where "receive_identified s = (Returns b, s')"
    | e s' where "receive_identified s = (Raises e, s')" "is_Exception e"
proof (cases r)
  case r: (Returns w)
  show ?thesis
  proof (cases w)
    case (Payload ack)
    note p = receive_identified_payload[OF assms(1), of ack rs]
    show ?thesis
    proof (cases "py_getitem ack (lit ''op'')")
      case (Inl e)
      with p r Payload assms(2) have "receive_identified s = (Raises e, s\<lparr>inbox := rs\<rparr>)"
        by simp
      moreover have "is_Exception e" using Inl by (rule py_getitem_exn)
      ultimately show ?thesis by (rule that(2))
    next
      case (Inr v)
      with p r Payload assms(2) obtain b s' where "receive_identified s = (Returns b, s')"
        by (cases "py_eq_int v 2") simp_all
      then show ?thesis by (rule that(1))
    qed
  next
    case NotJson
    with r assms(1,2) have "receive_identified s = (Raises JSONDecodeError, s\<lparr>inbox := rs\<rparr>)"
      by (simp add: receive_identified_def then_do_def ws_recv_def json_loads_def raise_def)
    then show ?thesis by (rule that(2)) simp
  qed
next
  case (Raises e)
  with assms(1,2) have "receive_identified s = (Raises e, s\<lparr>inbox := rs\<rparr>)"
    by (simp add: receive_identified_def then_do_def ws_recv_def)
  moreover from Raises assms(3) have "is_Exception e" by simp
  ultimately show ?thesis by (rule that(2))
next
  case Blocks
  with assms(3) show ?thesis by simp
qed

text \<open>\<open>connect()\<close> returns a boolean when every call on the transport completes.\<close>

lemma connect_returns:
  assumes "completes (dial s)" and "2 \<le> length (inbox s)" and "list_all completes (inbox s)"
    and "next_send_completes s"
  shows "\<exists>b. fst (connect H s) = Returns b"
proof -
  from assms(2) obtain r1 r2 rest where inb: "inbox s = r1 # r2 # rest"
    by (cases "inbox s"; cases "tl (inbox s)") auto
  with assms(3) have c1: "completes r1" and c2: "completes r2" by simp_all
  have raised: "\<exists>b. fst (connect H s) = Returns b"
    if "connect_try H s = (Raises e, t)" "is_Exception e" for e t
    using connect_of_Exception[OF that] by blast
  show ?thesis
  proof (rule receive_hello_completes[OF assms(1) inb c1])
    fix hello s1
    assume h: "receive_hello s = (Returns hello, s1)" and o: "websocket s1 = Some LinkOpen"
      and i1: "inbox s1 = r2 # rest" and sr: "send_results s1 = send_results s"
    have n: "next_send_completes s1" using assms(4) sr by (simp add: next_send_completes_def)
    have tr: "connect_try H s = then_do (send_identify H hello) (\<lambda>_. receive_identified) s1"
      unfolding connect_try_def using h by (rule then_do_Returns)
    show ?thesis
    proof (rule send_identify_completes[OF o n, of H hello])
      fix s2 assume sent: "send_identify H hello s1 = (Returns (), s2)"
        and w: "websocket s2 = websocket s1" and i: "inbox s2 = inbox s1"
      have w2: "websocket s2 = Some LinkOpen" using w o by simp
      have i2: "inbox s2 = r2 # rest" using i i1 by simp
      have tr2: "connect_try H s = receive_identified s2"
        using tr sent by (simp add: then_do_Returns)
      show ?thesis
      proof (rule receive_identified_completes[OF w2 i2 c2])
        fix b s3 assume "receive_identified s2 = (Returns b, s3)"
        with tr2 have "connect_try H s = (Returns b, s3)" by simp
        then have "connect H s = (Returns b, s3)" by (rule connect_of_Returns)
        then show ?thesis by simp
      next
        fix e s3 assume "receive_identified s2 = (Raises e, s3)" and ex: "is_Exception e"
        with tr2 have "connect_try H s = (Raises e, s3)" by simp
        then show ?thesis using ex by (rule raised)
      qed
    next
      fix e s2 assume "send_identify H hello s1 = (Raises e, s2)" and ex: "is_Exception e"
      then have "connect_try H s = (Raises e, s2)" using tr by (simp add: then_do_Raises)
      then show ?thesis using ex by (rule raised)
    qed
  next
    fix e s1 assume "receive_hello s = (Raises e, s1)" and ex: "is_Exception e"
    then have "connect_try H s = (Raises e, s1)"
      unfolding connect_try_def by (simp add: then_do_Raises)
    then show ?thesis using ex by (rule raised)
  qed
qed

text \<open>
  C10, as the code has it. When every awaited call on the transport completes (the
  connection attempt, the two \<open>recv()\<close> and the \<open>send()\<close> each return or raise an
  exception derived from \<open>Exception\<close>), \<open>connect()\<close> returns a boolean and raises
  nothing; and whenever \<open>connect()\<close> returns \<open>True\<close>, the connection was accepted and
  the second message received has an \<open>op\<close> equal to 2.
\<close>

theorem connect_total_when_transport_completes:
  "(completes (dial s) \<and> 2 \<le> length (inbox s) \<and> list_all completes (inbox s)
      \<and> next_send_completes s
    \<longrightarrow> (\<exists>b. fst (connect H s) = Returns b))
   \<and> (fst (connect H s) = Returns True
    \<longrightarrow> (\<exists>hello ack rest. dial s = Returns ()
           \<and> inbox s = Returns (Payload hello) # Returns (Payload ack) # rest \<and> op_is_2 ack))"
  using connect_returns[of s H] connect_True_only[of H s] by blast

theorem connect_total_when_transport_completes_witness:
  "completes (dial (example_env [hello_plain, identified]))
   \<and> 2 \<le> length (inbox (example_env [hello_plain, identified]))
   \<and> list_all completes (inbox (example_env [hello_plain, identified]))
   \<and> next_send_completes (example_env [hello_plain, identified])
   \<and> fst (connect id (example_env [hello_plain, identified])) = Returns True
   \<and> op_is_2 identified"
proof -
  have a: "completes (dial (example_env [hello_plain, identified]))"
    by (simp add: example_env_def)
  have b: "2 \<le> length (inbox (example_env [hello_plain, identified]))"
    by (simp add: example_env_def)
  have c: "list_all completes (inbox (example_env [hello_plain, identified]))"
    by (simp add: example_env_def)
  have d: "next_send_completes (example_env [hello_plain, identified])"
    by (simp add: example_env_def next_send_completes_def)
  have t: "fst (connect id (example_env [hello_plain, identified])) = Returns True"
    by (simp add: connect_def connect_try_def receive_hello_def receive_identified_def
          send_identify_def identify_message_def connect_except_def try_except_def
          then_do_def ws_connect_def ws_recv_def ws_send_def py_print_def emit_def
          json_loads_def ret_def raise_def lift_def example_env_def hello_plain_def
          identified_def lit_def)
  have e: "op_is_2 identified"
    by (simp add: op_is_2_def identified_def lit_def)
  from connect_total_when_transport_completes[of "example_env [hello_plain, identified]" id]
    a b c d t e
  show ?thesis by simp
qed

text \<open>
  C10 as stated fails for a server that accepts the connection and then stays silent:
  \<open>recv()\<close> has no timeout, and \<open>connect()\<close> never returns.
\<close>

theorem connect_blocks_on_silent_server:
  "fst (connect id (example_env [])) = Blocks"
  by (simp add: connect_def connect_try_def receive_hello_def try_except_def
        then_do_def ws_connect_def ws_recv_def py_print_def emit_def example_env_def)


section \<open>Commands and their replies\<close>

lemma ws_send_returns:
  assumes "websocket s = Some LinkOpen" and "next_send_returns s"
  shows "ws_send msg s =
           (Returns (), s\<lparr>send_results := tl (send_results s), trace := trace s @ [Sent msg]\<rparr>)"
  using assms
  by (cases "send_results s") (simp_all add: ws_send_def next_send_returns_def)

text \<open>What the three commands do once the request is sent and a reply has arrived.\<close>

lemma start_streaming_run:
  assumes "websocket s = Some LinkOpen" and "next_send_returns s"
    and "inbox s = Returns (Payload reply) # rest"
  shows "start_streaming s =
     (let s1 = s\<lparr>send_results := tl (send_results s), inbox := rest,
                 trace := trace s @ [Sent (request ''StartStream'' ''start-stream'')]\<rparr>
      in case py_path reply [lit ''d'', lit ''requestStatus'', lit ''result''] of
           Inl e \<Rightarrow> (Raises e, s1)
         | Inr ok \<Rightarrow>
             if truthy ok
             then (Returns (), s1\<lparr>trace := trace s1 @ [Printed PStreamingStarted]\<rparr>)
             else (case py_path reply [lit ''d'', lit ''requestStatus'', lit ''comment''] of
                     Inl e \<Rightarrow> (Raises e, s1)
                   | Inr c \<Rightarrow>
                       if printable c
                       then (Returns (), s1\<lparr>trace := trace s1 @ [Printed (PStartFailed c)]\<rparr>)
                       else (Raises UnicodeEncodeError, s1)))"
  using assms
  by (simp add: start_streaming_def then_do_def ws_send_returns ws_recv_def json_loads_def
        print_value_def py_print_def emit_def raise_def lift_def Let_def split: sum.splits)

lemma stop_streaming_run:
  assumes "websocket s = Some LinkOpen" and "next_send_returns s"
    and "inbox s = Returns (Payload reply) # rest"
  shows "stop_streaming s =
     (let s1 = s\<lparr>send_results := tl (send_results s), inbox := rest,
                 trace := trace s @ [Sent (request ''StopStream'' ''stop-stream'')]\<rparr>
      in case py_path reply [lit ''d'', lit ''requestStatus'', lit ''result''] of
           Inl e \<Rightarrow> (Raises e, s1)
         | Inr ok \<Rightarrow>
             if truthy ok
             then (Returns (), s1\<lparr>trace := trace s1 @ [Printed PStreamingStopped]\<rparr>)
             else (case py_path reply [lit ''d'', lit ''requestStatus'', lit ''comment''] of
                     Inl e \<Rightarrow> (Raises e, s1)
                   | Inr c \<Rightarrow>
                       if printable c
                       then (Returns (), s1\<lparr>trace := trace s1 @ [Printed (PStopFailed c)]\<rparr>)
                       else (Raises UnicodeEncodeError, s1)))"
  using assms
  by (simp add: stop_streaming_def then_do_def ws_send_returns ws_recv_def json_loads_def
        print_value_def py_print_def emit_def raise_def lift_def Let_def split: sum.splits)

subsection \<open>The \<open>requestId\<close> of the reply\<close>

lemma map_of_set_key:
  "map_of (set_key k v kvs) k' =
     (if k' = k then map_option (\<lambda>_. v) (map_of kvs k) else map_of kvs k')"
  by (induction kvs) (auto simp: set_key_def)

lemma getitem_set_key:
  "k' \<noteq> k \<Longrightarrow> py_getitem (JObj (set_key k v kvs)) k' = py_getitem (JObj kvs) k'"
  by (simp add: map_of_set_key)

lemma map_of_map_d:
  "map_of (map (\<lambda>(k, v). if k = key then (k, f v) else (k, v)) kvs) key
     = map_option f (map_of kvs key)"
  by (induction kvs) auto

lemma getitem_with_request_id:
  "py_getitem (with_request_id rid reply) (lit ''d'') =
     (case py_getitem reply (lit ''d'') of
        Inl e \<Rightarrow> Inl e
      | Inr v \<Rightarrow> Inr (case v of JObj dkvs \<Rightarrow> JObj (set_key (lit ''requestId'') rid dkvs)
                     | _ \<Rightarrow> v))"
  by (cases reply) (simp_all add: with_request_id_def map_of_map_d split: option.splits)

lemma path_with_request_id:
  assumes "k \<noteq> lit ''requestId''"
  shows "py_path (with_request_id rid reply) (lit ''d'' # k # ks)
           = py_path reply (lit ''d'' # k # ks)"
proof (cases "py_getitem reply (lit ''d'')")
  case (Inl e)
  then show ?thesis by (simp add: bindE_def getitem_with_request_id)
next
  case (Inr v)
  show ?thesis
  proof (cases v)
    case (JObj dkvs)
    with Inr assms show ?thesis
      by (simp add: bindE_def getitem_with_request_id map_of_set_key del: py_getitem.simps)
         (simp add: map_of_set_key)
  qed (use Inr in \<open>simp_all add: bindE_def getitem_with_request_id\<close>)
qed

lemma status_paths_with_request_id:
  "py_path (with_request_id rid reply) [lit ''d'', lit ''requestStatus'', k]
     = py_path reply [lit ''d'', lit ''requestStatus'', k]"
  "py_path (with_request_id rid reply) [lit ''d'', lit ''responseData'']
     = py_path reply [lit ''d'', lit ''responseData'']"
  by (rule path_with_request_id, simp add: lit_def)+


text \<open>
  C2, as the code has it. None of the three commands looks at the \<open>requestId\<close> of the
  reply: when the \<open>requestId\<close> that a reply carries is replaced by any other value, the
  command ends in the same way and leaves the same trace.
\<close>

theorem reply_request_id_is_ignored:
  "fst (start_streaming (s\<lparr>inbox := Returns (Payload (with_request_id rid reply)) # rest\<rparr>))
     = fst (start_streaming (s\<lparr>inbox := Returns (Payload reply) # rest\<rparr>))
   \<and> trace (snd (start_streaming
         (s\<lparr>inbox := Returns (Payload (with_request_id rid reply)) # rest\<rparr>)))
     = trace (snd (start_streaming (s\<lparr>inbox := Returns (Payload reply) # rest\<rparr>)))
   \<and> fst (stop_streaming (s\<lparr>inbox := Returns (Payload (with_request_id rid reply)) # rest\<rparr>))
     = fst (stop_streaming (s\<lparr>inbox := Returns (Payload reply) # rest\<rparr>))
   \<and> trace (snd (stop_streaming
         (s\<lparr>inbox := Returns (Payload (with_request_id rid reply)) # rest\<rparr>)))
     = trace (snd (stop_streaming (s\<lparr>inbox := Returns (Payload reply) # rest\<rparr>)))
   \<and> fst (get_stream_status
         (s\<lparr>inbox := Returns (Payload (with_request_id rid reply)) # rest\<rparr>))
     = fst (get_stream_status (s\<lparr>inbox := Returns (Payload reply) # rest\<rparr>))
   \<and> trace (snd (get_stream_status
         (s\<lparr>inbox := Returns (Payload (with_request_id rid reply)) # rest\<rparr>)))
     = trace (snd (get_stream_status (s\<lparr>inbox := Returns (Payload reply) # rest\<rparr>)))"
proof -
  let ?a = "s\<lparr>inbox := Returns (Payload (with_request_id rid reply)) # rest\<rparr>"
  let ?b = "s\<lparr>inbox := Returns (Payload reply) # rest\<rparr>"
  have 1: "fst (start_streaming ?a) = fst (start_streaming ?b)
           \<and> trace (snd (start_streaming ?a)) = trace (snd (start_streaming ?b))"
    by (simp add: start_streaming_def then_do_def ws_send_def ws_recv_def json_loads_def
          lift_def print_value_def py_print_def emit_def raise_def
          status_paths_with_request_id
        del: py_path.simps
        split: option.splits link.splits list.splits res.splits sum.splits)
  have 2: "fst (stop_streaming ?a) = fst (stop_streaming ?b)
           \<and> trace (snd (stop_streaming ?a)) = trace (snd (stop_streaming ?b))"
    by (simp add: stop_streaming_def then_do_def ws_send_def ws_recv_def json_loads_def
          lift_def print_value_def py_print_def emit_def raise_def
          status_paths_with_request_id
        del: py_path.simps
        split: option.splits link.splits list.splits res.splits sum.splits)
  have 3: "fst (get_stream_status ?a) = fst (get_stream_status ?b)
           \<and> trace (snd (get_stream_status ?a)) = trace (snd (get_stream_status ?b))"
    by (simp add: get_stream_status_def then_do_def ws_send_def ws_recv_def json_loads_def
          lift_def print_value_def py_print_def emit_def raise_def
          status_paths_with_request_id
        del: py_path.simps
        split: option.splits link.splits list.splits res.splits sum.splits)
  from 1 2 3 show ?thesis by blast
qed

text \<open>
  C2 as stated fails: \<open>start_streaming\<close> sends the request with the id
  \<open>start-stream\<close>, receives a successful reply that carries the id \<open>stop-stream\<close>,
  and reports success.
\<close>

theorem mismatched_reply_is_accepted:
  "start_streaming (ready_env [reply_ok ''StopStream'' ''stop-stream'']) =
     (Returns (),
      (ready_env [])\<lparr>trace := [Sent (request ''StartStream'' ''start-stream''),
                               Printed PStreamingStarted]\<rparr>)"
  by (simp add: start_streaming_def then_do_def ws_send_def ws_recv_def json_loads_def
        lift_def print_value_def printable_def py_print_def emit_def bindE_def ready_env_def
        example_env_def reply_ok_def lit_def)

text \<open>
  C3, as the code has it. When the reply has a \<open>requestStatus.result\<close> that is false
  as a Python truth value and a \<open>comment\<close>, \<open>start_streaming\<close> and
  \<open>stop_streaming\<close> raise no failure of their own: they print the failure line with
  exactly that comment and return normally, as on success. The one exception comes from
  \<open>print\<close>: a comment that is a string with a lone surrogate cannot be written, and
  \<open>UnicodeEncodeError\<close> is raised with nothing printed.
\<close>

theorem failed_reply_is_printed:
  assumes "websocket s = Some LinkOpen" and "next_send_returns s"
    and "inbox s = Returns (Payload reply) # rest"
    and "py_path reply [lit ''d'', lit ''requestStatus'', lit ''result''] = Inr ok"
    and "\<not> truthy ok"
    and "py_path reply [lit ''d'', lit ''requestStatus'', lit ''comment''] = Inr c"
  shows "start_streaming s =
           (if printable c
            then (Returns (),
                  s\<lparr>send_results := tl (send_results s), inbox := rest,
                    trace := trace s @ [Sent (request ''StartStream'' ''start-stream''),
                                        Printed (PStartFailed c)]\<rparr>)
            else (Raises UnicodeEncodeError,
                  s\<lparr>send_results := tl (send_results s), inbox := rest,
                    trace := trace s @ [Sent (request ''StartStream'' ''start-stream'')]\<rparr>))
         \<and> stop_streaming s =
           (if printable c
            then (Returns (),
                  s\<lparr>send_results := tl (send_results s), inbox := rest,
                    trace := trace s @ [Sent (request ''StopStream'' ''stop-stream''),
                                        Printed (PStopFailed c)]\<rparr>)
            else (Raises UnicodeEncodeError,
                  s\<lparr>send_results := tl (send_results s), inbox := rest,
                    trace := trace s @ [Sent (request ''StopStream'' ''stop-stream'')]\<rparr>))"
  using assms(4-6)
  by (simp add: start_streaming_run[OF assms(1-3)] stop_streaming_run[OF assms(1-3)]
        del: py_path.simps)

theorem failed_reply_is_printed_witness:
  "stop_streaming (ready_env [reply_failed ''StopStream'' ''stop-stream'' ''not streaming'']) =
     (Returns (),
      (ready_env [])\<lparr>trace := [Sent (request ''StopStream'' ''stop-stream''),
                               Printed (PStopFailed (JStr (lit ''not streaming'')))]\<rparr>)
   \<and> start_streaming (ready_env [reply_unprintable]) =
     (Raises UnicodeEncodeError,
      (ready_env [])\<lparr>trace := [Sent (request ''StartStream'' ''start-stream'')]\<rparr>)"
proof -
  let ?reply = "reply_failed ''StopStream'' ''stop-stream'' ''not streaming''"
  have a: "websocket (ready_env [?reply]) = Some LinkOpen"
    by (simp add: ready_env_def)
  have b: "next_send_returns (ready_env [?reply])"
    by (simp add: ready_env_def example_env_def next_send_returns_def)
  have c: "inbox (ready_env [?reply]) = Returns (Payload ?reply) # []"
    by (simp add: ready_env_def example_env_def)
  have d: "py_path ?reply [lit ''d'', lit ''requestStatus'', lit ''result''] = Inr (JBool False)"
    by (simp add: reply_failed_def bindE_def lit_def)
  have e: "\<not> truthy (JBool False)" by simp
  have f: "py_path ?reply [lit ''d'', lit ''requestStatus'', lit ''comment'']
             = Inr (JStr (lit ''not streaming''))"
    by (simp add: reply_failed_def bindE_def lit_def)
  have g: "printable (JStr (lit ''not streaming''))"
    by (simp add: printable_def lit_def utf8_char_def)
  have a': "websocket (ready_env [reply_unprintable]) = Some LinkOpen"
    by (simp add: ready_env_def)
  have b': "next_send_returns (ready_env [reply_unprintable])"
    by (simp add: ready_env_def example_env_def next_send_returns_def)
  have c': "inbox (ready_env [reply_unprintable]) = Returns (Payload reply_unprintable) # []"
    by (simp add: ready_env_def example_env_def)
  have d': "py_path reply_unprintable [lit ''d'', lit ''requestStatus'', lit ''result'']
              = Inr (JInt 0)"
    by (simp add: reply_unprintable_def bindE_def lit_def)
  have e': "\<not> truthy (JInt 0)" by simp
  have f': "py_path reply_unprintable [lit ''d'', lit ''requestStatus'', lit ''comment'']
              = Inr (JStr [0xD800])"
    by (simp add: reply_unprintable_def bindE_def lit_def)
  have g': "\<not> printable (JStr [0xD800])"
    by (simp add: printable_def utf8_char_def)
  from failed_reply_is_printed[OF a b c d e f] g
  have 1: "stop_streaming (ready_env [?reply]) =
     (Returns (),
      (ready_env [])\<lparr>trace := [Sent (request ''StopStream'' ''stop-stream''),
                               Printed (PStopFailed (JStr (lit ''not streaming'')))]\<rparr>)"
    by (simp add: ready_env_def example_env_def)
  from failed_reply_is_printed[OF a' b' c' d' e' f'] g'
  have 2: "start_streaming (ready_env [reply_unprintable]) =
     (Raises UnicodeEncodeError,
      (ready_env [])\<lparr>trace := [Sent (request ''StartStream'' ''start-stream'')]\<rparr>)"
    by (simp add: ready_env_def example_env_def)
  from 1 2 show ?thesis by simp
qed

text \<open>
  C3 as stated fails: on a reply with \<open>result\<close> false and the comment \<open>busy\<close>,
  \<open>start_streaming\<close> returns normally, as it does on success; the comment is printed only.
\<close>

theorem failed_reply_returns_normally:
  "start_streaming (ready_env [reply_failed ''StartStream'' ''start-stream'' ''busy'']) =
     (Returns (),
      (ready_env [])\<lparr>trace := [Sent (request ''StartStream'' ''start-stream''),
                               Printed (PStartFailed (JStr (lit ''busy'')))]\<rparr>)"
  by (simp add: start_streaming_def then_do_def ws_send_def ws_recv_def json_loads_def
        lift_def print_value_def printable_def utf8_char_def py_print_def emit_def bindE_def
        ready_env_def example_env_def reply_failed_def lit_def)


section \<open>The scheduled start\<close>

lemma days_before_month_Suc:
  assumes "1 \<le> m" and "m < 12"
  shows "days_before_month y (m + 1) = days_before_month y m + int (days_in_month y m)"
proof -
  from assms have "m = 1 \<or> m = 2 \<or> m = 3 \<or> m = 4 \<or> m = 5 \<or> m = 6 \<or> m = 7 \<or> m = 8
      \<or> m = 9 \<or> m = 10 \<or> m = 11"
    by arith
  then show ?thesis
    by (elim disjE) (simp_all add: days_before_month_def days_in_month_def)
qed

lemma div_step:
  fixes a k :: int
  assumes "0 < k"
  shows "a div k = (a - 1) div k + (if a mod k = 0 then 1 else 0)"
proof -
  have dm: "k * (a div k) + a mod k = a" by (rule mult_div_mod_eq)
  show ?thesis
  proof (cases "a mod k = 0")
    case True
    with dm have "a = k * (a div k)" by simp
    then have "a - 1 = k * (a div k - 1) + (k - 1)" by (simp add: algebra_simps)
    moreover have "0 \<le> k - 1" "k - 1 < k" using assms by simp_all
    ultimately have "(a - 1) div k = a div k - 1" by (rule int_div_pos_eq)
    with True show ?thesis by simp
  next
    case False
    have "0 \<le> a mod k" "a mod k < k" using assms by simp_all
    with False have r: "0 \<le> a mod k - 1" "a mod k - 1 < k" by simp_all
    from dm have "a - 1 = k * (a div k) + (a mod k - 1)" by simp
    from this r have "(a - 1) div k = a div k" by (rule int_div_pos_eq)
    with False show ?thesis by simp
  qed
qed

lemma days_before_year_Suc:
  "days_before_year (y + 1) = days_before_year y + 365 + (if is_leap y then 1 else 0)"
proof -
  let ?a = "int y"
  have m4: "(?a mod 4 = 0) = (y mod 4 = 0)"
    and m100: "(?a mod 100 = 0) = (y mod 100 = 0)"
    and m400: "(?a mod 400 = 0) = (y mod 400 = 0)"
    using int_dvd_int_iff[of 4 y] int_dvd_int_iff[of 100 y] int_dvd_int_iff[of 400 y]
    by (simp_all add: mod_eq_0_iff_dvd)
  have d4: "?a div 4 = (?a - 1) div 4 + (if y mod 4 = 0 then 1 else 0)"
    using div_step[of 4 ?a] m4 by simp
  have d100: "?a div 100 = (?a - 1) div 100 + (if y mod 100 = 0 then 1 else 0)"
    using div_step[of 100 ?a] m100 by simp
  have d400: "?a div 400 = (?a - 1) div 400 + (if y mod 400 = 0 then 1 else 0)"
    using div_step[of 400 ?a] m400 by simp
  have i1: "y mod 400 = 0 \<Longrightarrow> y mod 100 = 0" by (rule mod_mod_cancel[of 100 400 y, THEN subst]) simp_all
  have i2: "y mod 100 = 0 \<Longrightarrow> y mod 4 = 0" by (rule mod_mod_cancel[of 4 100 y, THEN subst]) simp_all
  have "days_before_year (y + 1) = ?a * 365 + ?a div 4 - ?a div 100 + ?a div 400"
    by (simp add: days_before_year_def Let_def)
  also have "\<dots> = days_before_year y + 365
      + ((if y mod 4 = 0 then 1 else 0) - (if y mod 100 = 0 then 1 else 0)
         + (if y mod 400 = 0 then 1 else 0))"
    unfolding d4 d100 d400 by (simp add: days_before_year_def Let_def algebra_simps)
  also have "(if y mod 4 = 0 then 1 else 0) - (if y mod 100 = 0 then 1 else 0)
         + (if y mod 400 = 0 then 1 else 0) = (if is_leap y then 1 else (0::int))"
    using i1 i2 by (auto simp: is_leap_def)
  finally show ?thesis by simp
qed

text \<open>Adding a day moves to the next ordinal.\<close>

lemma ymd2ord_add_day:
  assumes "valid_date (year t) (month t) (day t)" and "dt_add_day t = Inr t'"
  shows "ymd2ord t' = ymd2ord t + 1"
proof (cases "day t < days_in_month (year t) (month t)")
  case True
  with assms(2) show ?thesis by (auto simp: dt_add_day_def ymd2ord_def)
next
  case False
  with assms(1) have last: "day t = days_in_month (year t) (month t)"
    by (simp add: valid_date_def)
  show ?thesis
  proof (cases "month t < 12")
    case True
    with False assms(2) have t': "t' = t\<lparr>month := month t + 1, day := 1\<rparr>"
      by (simp add: dt_add_day_def)
    from assms(1) have "1 \<le> month t" by (simp add: valid_date_def)
    from days_before_month_Suc[OF this True, of "year t"] last t'
    show ?thesis by (simp add: ymd2ord_def)
  next
    case m: False
    with assms(1) have m12: "month t = 12" by (simp add: valid_date_def)
    with False m assms(2) have t': "t' = t\<lparr>year := year t + 1, month := 1, day := 1\<rparr>"
      by (simp add: dt_add_day_def split: if_splits)
    from last m12 have "day t = 31" by (simp add: days_in_month_def)
    with t' m12 days_before_year_Suc[of "year t"] show ?thesis
      by (simp add: ymd2ord_def days_before_month_def)
  qed
qed

lemma lex_le_total: "length xs = length ys \<Longrightarrow> \<not> lex_le xs ys \<Longrightarrow> lex_le ys xs"
  by (induction xs ys rule: lex_le.induct) auto

text \<open>A later date is a later instant, whatever the times of day.\<close>

lemma dt_lt_later_date:
  assumes "year a < year b \<or> (year a = year b \<and> (month a < month b
             \<or> (month a = month b \<and> day a < day b)))"
  shows "dt_lt a b"
  using assms by (auto simp: dt_lt_def dt_le_def dt_fields_def)

lemma dt_add_day_later:
  assumes "dt_add_day t = Inr t'"
  shows "year t < year t' \<or> (year t = year t' \<and> (month t < month t'
           \<or> (month t = month t' \<and> day t < day t')))"
    and "hour t' = hour t" and "minute t' = minute t" and "second t' = second t"
    and "microsecond t' = microsecond t"
  using assms by (auto simp: dt_add_day_def split: if_splits)

lemma dt_add_day_defined:
  assumes "valid_date (year t) (month t) (day t)"
    and "(year t, month t, day t) \<noteq> (9999, 12, 31)"
  obtains t' where "dt_add_day t = Inr t'"
proof (cases "day t < days_in_month (year t) (month t)")
  case True
  then show ?thesis using that by (simp add: dt_add_day_def)
next
  case False
  with assms(1) have last: "day t = days_in_month (year t) (month t)"
    by (simp add: valid_date_def)
  show ?thesis
  proof (cases "month t < 12")
    case True
    with False show ?thesis using that by (simp add: dt_add_day_def)
  next
    case m: False
    with assms(1) have m12: "month t = 12" by (simp add: valid_date_def)
    with last have "day t = 31" by (simp add: days_in_month_def)
    with m12 assms have "year t < 9999" by (simp add: valid_date_def)
    with False m show ?thesis using that by (simp add: dt_add_day_def)
  qed
qed

lemma strptime_HM_fields:
  assumes "strptime_HM nd start_time = Inr parsed"
  shows "second parsed = 0" and "microsecond parsed = 0" and "hour parsed < 24"
    and "minute parsed < 60"
  using assms
  by (auto simp: strptime_HM_def split: option.splits prod.splits if_splits)

text \<open>
  The target when the four readings of the clock fall on one valid date other than
  9999-12-31, with \<open>n\<close> the fourth reading, the one the target is compared with. For a
  string that \<open>strptime\<close> parses, the target keeps the parsed hour and minute with
  second and microsecond 0, lies strictly after \<open>n\<close>, is on the day after \<open>n\<close> when
  the parsed time of day is not later than that of \<open>n\<close>, and on the date of \<open>n\<close>
  otherwise.
\<close>

lemma schedule_target_same_date:
  assumes "strptime_HM nd start_time = Inr parsed"
    and "\<forall>i<4. date_of (clock s (ticks s + i)) = (y, m, d)"
    and "clock s (ticks s + 3) = n"
    and "valid_date y m d"
    and "(y, m, d) \<noteq> (9999, 12, 31)"
  shows "\<exists>target. schedule_target nd start_time s = (Returns target, s\<lparr>ticks := ticks s + 4\<rparr>)
           \<and> hour target = hour parsed \<and> minute target = minute parsed
           \<and> second target = 0 \<and> microsecond target = 0
           \<and> dt_lt n target
           \<and> (if time_of_day_le parsed n
               then ymd2ord target = ymd2ord n + 1
               else date_of target = date_of n)"
proof -
  let ?t = "parsed\<lparr>year := y, month := m, day := d\<rparr>"
  let ?s' = "s\<lparr>ticks := ticks s + 4\<rparr>"
  from assms(2) have
    r0: "date_of (clock s (ticks s)) = (y, m, d)" and
    r1: "date_of (clock s (ticks s + 1)) = (y, m, d)" and
    r2: "date_of (clock s (ticks s + 2)) = (y, m, d)" and
    r3: "date_of (clock s (ticks s + 3)) = (y, m, d)"
    by (auto dest: spec[of _ 0] spec[of _ 1] spec[of _ 2] spec[of _ 3])
  from r3 assms(3) have dn: "year n = y" "month n = m" "day n = d"
    by (simp_all add: date_of_def)
  have rep: "dt_replace parsed (year (clock s (ticks s))) (month (clock s (ticks s + 1)))
      (day (clock s (ticks s + 2))) = Inr ?t"
    using r0 r1 r2 assms(4) by (simp add: dt_replace_def date_of_def)
  have run: "schedule_target nd start_time s =
      (if dt_le ?t n then lift (dt_add_day ?t) ?s' else (Returns ?t, ?s'))"
  proof -
    have n': "clock s (Suc (Suc (Suc (ticks s)))) = n"
      using assms(3) by (simp add: numeral_3_eq_3)
    have t4: "Suc (Suc (Suc (Suc (ticks s)))) = ticks s + 4" by simp
    show ?thesis
      using assms(1) rep
      by (simp add: schedule_target_def ret_def n' t4)
  qed
  from strptime_HM_fields[OF assms(1)] have z: "second parsed = 0" "microsecond parsed = 0"
    by simp_all
  have cmp: "dt_le ?t n = time_of_day_le parsed n"
    using dn by (simp add: dt_le_def dt_fields_def time_of_day_le_def)
  show ?thesis
  proof (cases "time_of_day_le parsed n")
    case True
    have v: "valid_date (year ?t) (month ?t) (day ?t)" using assms(4) by simp
    have nl: "(year ?t, month ?t, day ?t) \<noteq> (9999, 12, 31)" using assms(5) by simp
    from dt_add_day_defined[OF v nl] obtain t' where t': "dt_add_day ?t = Inr t'" by blast
    from True cmp run t' have res: "schedule_target nd start_time s = (Returns t', ?s')"
      by (simp add: ret_def)
    from dt_add_day_later[OF t'] have
      later: "y < year t' \<or> (y = year t' \<and> (m < month t' \<or> (m = month t' \<and> d < day t')))"
      and f: "hour t' = hour parsed" "minute t' = minute parsed" "second t' = second parsed"
        "microsecond t' = microsecond parsed"
      by simp_all
    from later dn have "dt_lt n t'" by (intro dt_lt_later_date) simp
    moreover from ymd2ord_add_day[OF v t'] dn have "ymd2ord t' = ymd2ord n + 1"
      by (simp add: ymd2ord_def)
    ultimately show ?thesis using res f z True by simp
  next
    case False
    with cmp run have res: "schedule_target nd start_time s = (Returns ?t, ?s')" by simp
    from False cmp have "dt_lt n ?t" by (simp add: dt_lt_def)
    moreover have "date_of ?t = date_of n" using dn by (simp add: date_of_def)
    ultimately show ?thesis using res z False by simp
  qed
qed


lemma strptime_0830:
  "strptime_HM ascii_digit (lit ''08:30'') =
     Inr \<lparr>year = 1900, month = 1, day = 1, hour = 8, minute = 30, second = 0, microsecond = 0\<rparr>"
  by (simp add: strptime_HM_def match_HM_def match_colon_M_def match_M_def or_else_def
        ascii_digit_def lit_def)

text \<open>At 09:00 the target for \<open>08:30\<close> is the next day, at 07:00 the same day.\<close>

lemma schedule_target_same_date_examples:
  "schedule_target ascii_digit (lit ''08:30'') (frozen_env (at_time 9 0) []) =
     (Returns \<lparr>year = 2024, month = 3, day = 11, hour = 8, minute = 30, second = 0,
               microsecond = 0\<rparr>,
      (frozen_env (at_time 9 0) [])\<lparr>ticks := 4\<rparr>)
   \<and> dt_lt (at_time 9 0)
        \<lparr>year = 2024, month = 3, day = 11, hour = 8, minute = 30, second = 0, microsecond = 0\<rparr>
   \<and> schedule_target ascii_digit (lit ''08:30'') (frozen_env (at_time 7 0) []) =
     (Returns \<lparr>year = 2024, month = 3, day = 10, hour = 8, minute = 30, second = 0,
               microsecond = 0\<rparr>,
      (frozen_env (at_time 7 0) [])\<lparr>ticks := 4\<rparr>)
   \<and> dt_lt (at_time 7 0)
        \<lparr>year = 2024, month = 3, day = 10, hour = 8, minute = 30, second = 0, microsecond = 0\<rparr>"
proof -
  let ?p = "\<lparr>year = 1900, month = 1, day = 1, hour = 8, minute = 30, second = 0,
             microsecond = 0\<rparr>"
  have v: "valid_date 2024 3 10"
    by (simp add: valid_date_def days_in_month_def)
  have nl: "(2024, 3, 10) \<noteq> (9999 :: nat, 12 :: nat, 31 :: nat)" by simp
  have after_nine:
    "schedule_target ascii_digit (lit ''08:30'') (frozen_env (at_time 9 0) []) =
       (Returns \<lparr>year = 2024, month = 3, day = 11, hour = 8, minute = 30, second = 0,
                 microsecond = 0\<rparr>,
        (frozen_env (at_time 9 0) [])\<lparr>ticks := 4\<rparr>)"
    by (simp add: schedule_target_def strptime_0830 frozen_env_def ready_env_def example_env_def
          at_time_def dt_replace_def valid_date_def days_in_month_def dt_le_def dt_fields_def
          dt_add_day_def is_leap_def ret_def)
  have before_nine:
    "schedule_target ascii_digit (lit ''08:30'') (frozen_env (at_time 7 0) []) =
       (Returns \<lparr>year = 2024, month = 3, day = 10, hour = 8, minute = 30, second = 0,
                 microsecond = 0\<rparr>,
        (frozen_env (at_time 7 0) [])\<lparr>ticks := 4\<rparr>)"
    by (simp add: schedule_target_def strptime_0830 frozen_env_def ready_env_def example_env_def
          at_time_def dt_replace_def valid_date_def days_in_month_def dt_le_def dt_fields_def
          dt_add_day_def is_leap_def ret_def)
  have c9: "\<forall>i<4. date_of (clock (frozen_env (at_time 9 0) [])
                (ticks (frozen_env (at_time 9 0) []) + i)) = (2024, 3, 10)"
    by (simp add: frozen_env_def at_time_def date_of_def)
  have c7: "\<forall>i<4. date_of (clock (frozen_env (at_time 7 0) [])
                (ticks (frozen_env (at_time 7 0) []) + i)) = (2024, 3, 10)"
    by (simp add: frozen_env_def at_time_def date_of_def)
  have n9: "clock (frozen_env (at_time 9 0) []) (ticks (frozen_env (at_time 9 0) []) + 3)
              = at_time 9 0"
    by (simp add: frozen_env_def)
  have n7: "clock (frozen_env (at_time 7 0) []) (ticks (frozen_env (at_time 7 0) []) + 3)
              = at_time 7 0"
    by (simp add: frozen_env_def)
  from schedule_target_same_date[OF strptime_0830 c9 n9 v nl] after_nine
  have "dt_lt (at_time 9 0)
          \<lparr>year = 2024, month = 3, day = 11, hour = 8, minute = 30, second = 0, microsecond = 0\<rparr>"
    by auto
  moreover
  from schedule_target_same_date[OF strptime_0830 c7 n7 v nl] before_nine
  have "dt_lt (at_time 7 0)
          \<lparr>year = 2024, month = 3, day = 10, hour = 8, minute = 30, second = 0, microsecond = 0\<rparr>"
    by auto
  ultimately show ?thesis using after_nine before_nine by simp
qed

text \<open>
  C5 holds on the runs above and fails on others. \<open>schedule_stream\<close> reads
  \<open>datetime.now()\<close> once for the year, once for the month, once for the day and once
  more for the comparison. When midnight at the end of January falls between the second
  and the third reading, the date is put together from January and from the 1st: the
  target for \<open>08:30\<close> is 2024-01-02 08:30, thirty days before the instant it is compared
  with, and adding one day does not bring it back. The wait is negative,
  \<open>asyncio.sleep\<close> returns at once and the stream is started at midnight.
\<close>

theorem schedule_target_in_the_past_across_midnight:
  "schedule_target ascii_digit (lit ''08:30'') (month_end_env []) =
     (Returns \<lparr>year = 2024, month = 1, day = 2, hour = 8, minute = 30, second = 0,
               microsecond = 0\<rparr>,
      (month_end_env [])\<lparr>ticks := 4\<rparr>)
   \<and> dt_lt \<lparr>year = 2024, month = 1, day = 2, hour = 8, minute = 30, second = 0,
             microsecond = 0\<rparr>
           (month_end_clock 3)
   \<and> schedule_stream ascii_digit (lit ''08:30'') None
         (month_end_env [reply_ok ''StartStream'' ''start-stream'']) =
     (Returns (),
      (month_end_env [])\<lparr>ticks := 5,
         trace :=
           [Printed (PScheduledFor \<lparr>year = 2024, month = 1, day = 2, hour = 8, minute = 30,
                                    second = 0, microsecond = 0\<rparr>),
            Printed (PWaiting (- 2561400)),
            Slept (- 2561400000000),
            Printed PStartingScheduled,
            Sent (request ''StartStream'' ''start-stream''),
            Printed PStreamingStarted]\<rparr>)"
proof -
  let ?t = "\<lparr>year = 2024, month = 1, day = 2, hour = 8, minute = 30, second = 0,
             microsecond = 0\<rparr>"
  have target: "schedule_target ascii_digit (lit ''08:30'') (month_end_env msgs) =
      (Returns ?t, (month_end_env msgs)\<lparr>ticks := 4\<rparr>)" for msgs
    by (simp add: schedule_target_def strptime_0830 month_end_env_def month_end_clock_def
          ready_env_def example_env_def dt_replace_def valid_date_def days_in_month_def
          dt_le_def dt_fields_def dt_add_day_def is_leap_def ret_def)
  have past: "dt_lt ?t (month_end_clock 3)"
    by (simp add: dt_lt_def dt_le_def dt_fields_def month_end_clock_def)
  have tick4: "clock ((month_end_env msgs)\<lparr>ticks := 4\<rparr>) (ticks ((month_end_env msgs)\<lparr>ticks := 4\<rparr>))
      = month_end_clock 4" for msgs
    by (simp add: month_end_env_def)
  have step: "then_do (schedule_target ascii_digit (lit ''08:30'')) f (month_end_env msgs)
      = f ?t ((month_end_env msgs)\<lparr>ticks := 4\<rparr>)" for f :: "datetime \<Rightarrow> unit act" and msgs
    by (simp add: then_do_def target)
  have run: "schedule_stream ascii_digit (lit ''08:30'') None
         (month_end_env [reply_ok ''StartStream'' ''start-stream'']) =
     (Returns (),
      (month_end_env [])\<lparr>ticks := 5,
         trace :=
           [Printed (PScheduledFor ?t), Printed (PWaiting (- 2561400)),
            Slept (- 2561400000000), Printed PStartingScheduled,
            Sent (request ''StartStream'' ''start-stream''), Printed PStreamingStarted]\<rparr>)"
    unfolding schedule_stream_def try_except_def
    by (simp add: step tick4 py_print_def sleep_def)
       (simp add: start_streaming_def then_do_def ws_send_def ws_recv_def json_loads_def lift_def
          print_value_def py_print_def emit_def bindE_def ret_def month_end_env_def ready_env_def
          example_env_def reply_ok_def lit_def dt_diff_us_def ymd2ord_def days_before_year_def
          days_before_month_def month_end_clock_def is_leap_def Let_def trunc_seconds_def)
  from target[of "[]"] past run show ?thesis by simp
qed


lemma strptime_HM_error: "strptime_HM nd start_time = Inl e \<Longrightarrow> e = ValueError"
  by (auto simp: strptime_HM_def split: option.splits prod.splits if_splits)

text \<open>
  C6, as the code has it. For a string that \<open>strptime\<close> rejects, \<open>schedule_stream\<close>
  prints the line about the invalid time format and returns normally; it does nothing
  else: the clock is not read, nothing is sent or awaited, no command is issued.
\<close>

theorem invalid_time_is_printed_only:
  assumes "strptime_HM nd start_time = Inl e"
  shows "schedule_stream nd start_time duration_minutes s =
           (Returns (), s\<lparr>trace := trace s @ [Printed PInvalidTimeFormat]\<rparr>)"
proof -
  from assms have "strptime_HM nd start_time = Inl ValueError"
    using strptime_HM_error by blast
  then show ?thesis
    by (simp add: schedule_stream_def schedule_target_def try_except_def raise_def
          py_print_def emit_def)
qed

theorem invalid_time_is_printed_only_witness:
  "strptime_HM ascii_digit (lit ''8h30'') = Inl ValueError
   \<and> schedule_stream ascii_digit (lit ''8h30'') (Some 5) (ready_env []) =
       (Returns (), (ready_env [])\<lparr>trace := [Printed PInvalidTimeFormat]\<rparr>)"
proof -
  have a: "strptime_HM ascii_digit (lit ''8h30'') = Inl ValueError"
    by (simp add: strptime_HM_def match_HM_def match_colon_M_def match_M_def or_else_def
          ascii_digit_def lit_def)
  from invalid_time_is_printed_only[OF a, of "Some 5" "ready_env []"] a
  show ?thesis by (simp add: ready_env_def example_env_def)
qed

text \<open>
  C6 as stated fails: for \<open>25:99\<close> the call does not fail with an error of its own; it
  returns normally, as it does after a completed schedule.
\<close>

theorem invalid_time_returns_normally:
  "schedule_stream ascii_digit (lit ''25:99'') None (ready_env []) =
     (Returns (), (ready_env [])\<lparr>trace := [Printed PInvalidTimeFormat]\<rparr>)"
  by (simp add: schedule_stream_def schedule_target_def try_except_def raise_def
        py_print_def emit_def strptime_HM_def match_HM_def match_colon_M_def match_M_def
        or_else_def ascii_digit_def lit_def ready_env_def example_env_def)


section \<open>Closing the session\<close>

text \<open>
  C8. \<open>disconnect()\<close> returns normally in every state of the session. On a session that
  never opened a connection it changes nothing. A second call in a row returns normally
  too and leaves the session as the first call left it, the connection closed once; it
  only prints the line "Disconnected from OBS" again.
\<close>

theorem disconnect_is_idempotent:
  "fst (disconnect s) = Returns ()
   \<and> (websocket s = None \<longrightarrow> disconnect s = (Returns (), s))
   \<and> disconnect (snd (disconnect s)) =
       (Returns (),
        (snd (disconnect s))\<lparr>trace := trace (snd (disconnect s)) @
           (if websocket s = None then [] else [Printed PDisconnected])\<rparr>)"
proof (cases "websocket s")
  case None
  then show ?thesis by (simp add: disconnect_def ret_def)
next
  case (Some l)
  then show ?thesis
    by (cases l)
       (simp_all add: disconnect_def then_do_def ws_close_def py_print_def emit_def)
qed

theorem disconnect_is_idempotent_witness:
  "websocket (example_env []) = None
   \<and> disconnect (example_env []) = (Returns (), example_env [])
   \<and> disconnect (ready_env []) =
       (Returns (),
        (ready_env [])\<lparr>websocket := Some LinkClosed,
                       trace := [ClosedLink, Printed PDisconnected]\<rparr>)
   \<and> disconnect (snd (disconnect (ready_env []))) =
       (Returns (),
        (ready_env [])\<lparr>websocket := Some LinkClosed,
                       trace := [ClosedLink, Printed PDisconnected, Printed PDisconnected]\<rparr>)"
proof -
  have a: "websocket (example_env []) = None" by (simp add: example_env_def)
  have b: "disconnect (ready_env []) =
       (Returns (),
        (ready_env [])\<lparr>websocket := Some LinkClosed,
                       trace := [ClosedLink, Printed PDisconnected]\<rparr>)"
    by (simp add: disconnect_def then_do_def ws_close_def py_print_def emit_def ready_env_def
          example_env_def)
  have c: "websocket (ready_env []) \<noteq> None" by (simp add: ready_env_def)
  from disconnect_is_idempotent[of "example_env []"] a
  have 1: "disconnect (example_env []) = (Returns (), example_env [])" by simp
  from disconnect_is_idempotent[of "ready_env []"] b c
  have 2: "disconnect (snd (disconnect (ready_env []))) =
       (Returns (),
        (ready_env [])\<lparr>websocket := Some LinkClosed,
                       trace := [ClosedLink, Printed PDisconnected, Printed PDisconnected]\<rparr>)"
    by simp
  from a 1 b 2 show ?thesis by simp
qed


section \<open>The trigger of \<open>obs-auto.py\<close>\<close>

lemma receive_identified_websocket:
  "websocket (snd (receive_identified s)) = websocket s"
  by (simp add: receive_identified_def then_do_def ws_recv_def json_loads_def lift_def
        py_print_def emit_def ret_def
      split: option.splits link.splits list.splits res.splits wire.splits sum.splits)

lemma start_streaming_websocket:
  "websocket (snd (start_streaming s)) = websocket s"
  by (simp add: start_streaming_def then_do_def ws_send_def ws_recv_def json_loads_def lift_def
        print_value_def py_print_def emit_def raise_def
      del: py_path.simps
      split: option.splits link.splits list.splits res.splits wire.splits sum.splits)

text \<open>After \<open>connect()\<close> has returned \<open>True\<close> the connection is open.\<close>

lemma connect_True_open:
  assumes "fst (connect H s) = Returns True"
  shows "websocket (snd (connect H s)) = Some LinkOpen"
proof -
  obtain r t where rt: "connect_try H s = (r, t)" by (cases "connect_try H s")
  have "r = Returns True"
  proof (cases r)
    case (Returns b)
    with rt have "connect H s = (Returns b, t)" by (simp add: connect_of_Returns)
    with assms Returns show ?thesis by simp
  next
    case (Raises e)
    with rt have "connect H s = connect_except e t" by (simp add: connect_of_Raises)
    with assms connect_except_not_True[of e t] show ?thesis by simp
  next
    case Blocks
    with rt have "connect H s = (Blocks, t)" by (simp add: connect_of_Blocks)
    with assms show ?thesis by simp
  qed
  with rt have tr: "connect_try H s = (Returns True, t)" by simp
  then have c: "connect H s = (Returns True, t)" by (rule connect_of_Returns)
  from tr obtain hello s1 where
    h: "receive_hello s = (Returns hello, s1)" and
    rest1: "then_do (send_identify H hello) (\<lambda>_. receive_identified) s1 = (Returns True, t)"
    unfolding connect_try_def by (rule then_do_Returns_inv)
  from rest1 obtain u s2 where
    i: "send_identify H hello s1 = (Returns u, s2)" and
    a: "receive_identified s2 = (Returns True, t)"
    by (rule then_do_Returns_inv)
  from receive_hello_Returns_inv[OF h] have "websocket s1 = Some LinkOpen" by blast
  moreover from i have "send_identify H hello s1 = (Returns (), s2)" by simp
  from send_identify_Returns_inv[OF this] have "websocket s2 = websocket s1" by blast
  moreover from receive_identified_websocket[of s2] a have "websocket t = websocket s2" by simp
  ultimately show ?thesis using c by simp
qed

lemma disconnect_open:
  assumes "websocket s = Some LinkOpen"
  shows "disconnect s =
           (Returns (),
            s\<lparr>websocket := Some LinkClosed, trace := trace s @ [ClosedLink, Printed PDisconnected]\<rparr>)"
  using assms
  by (simp add: disconnect_def then_do_def ws_close_def py_print_def emit_def)

text \<open>
  C9. \<open>start_stream\<close> creates the controller and calls \<open>connect()\<close>. Unless
  \<open>connect()\<close> returns \<open>True\<close>, nothing happens after it: \<open>start_streaming\<close> is not
  called and the state is the one \<open>connect()\<close> left. When \<open>connect()\<close> returns \<open>True\<close>
  and \<open>start_streaming\<close> returns or raises, \<open>disconnect()\<close> runs after it: the
  connection is closed, the trace ends with the closing and the line "Disconnected from
  OBS", and the outcome of \<open>start_streaming\<close>, an exception included, is the outcome of
  \<open>start_stream\<close>.
\<close>

theorem start_stream_releases_session:
  assumes "s0 = OBSController (lit ''localhost'') 4455 (Some (lit ''Oindia001'')) env"
    and "s1 = snd (connect H s0)"
    and "s2 = snd (start_streaming s1)"
  shows "(fst (connect H s0) \<noteq> Returns True \<longrightarrow>
            snd (start_stream H env) = s1
            \<and> fst (start_stream H env) =
                (case fst (connect H s0) of
                   Returns b \<Rightarrow> Returns () | Raises e \<Rightarrow> Raises e | Blocks \<Rightarrow> Blocks))
         \<and> (fst (connect H s0) = Returns True \<and> fst (start_streaming s1) \<noteq> Blocks \<longrightarrow>
            start_stream H env =
              (fst (start_streaming s1),
               s2\<lparr>websocket := Some LinkClosed,
                  trace := trace s2 @ [ClosedLink, Printed PDisconnected]\<rparr>))"
proof -
  have first: "snd (start_stream H env) = s1
        \<and> fst (start_stream H env) =
            (case fst (connect H s0) of
               Returns b \<Rightarrow> Returns () | Raises e \<Rightarrow> Raises e | Blocks \<Rightarrow> Blocks)"
    if n: "fst (connect H s0) \<noteq> Returns True"
  proof -
    obtain r where r: "connect H s0 = (r, s1)" using assms(2) by (cases "connect H s0") simp
    show ?thesis
    proof (cases r)
      case (Returns b)
      with n r have "b = False" by simp
      with Returns r show ?thesis
        unfolding start_stream_def assms(1)[symmetric]
        by (simp add: then_do_def ret_def)
    next
      case (Raises e)
      with r show ?thesis
        unfolding start_stream_def assms(1)[symmetric]
        by (simp add: then_do_def)
    next
      case Blocks
      with r show ?thesis
        unfolding start_stream_def assms(1)[symmetric]
        by (simp add: then_do_def)
    qed
  qed
  have second: "start_stream H env =
      (fst (start_streaming s1),
       s2\<lparr>websocket := Some LinkClosed,
          trace := trace s2 @ [ClosedLink, Printed PDisconnected]\<rparr>)"
    if a: "fst (connect H s0) = Returns True \<and> fst (start_streaming s1) \<noteq> Blocks"
  proof -
    from a have c: "connect H s0 = (Returns True, s1)"
      using assms(2) by (cases "connect H s0") simp
    from a connect_True_open[of H s0] assms(2) have o1: "websocket s1 = Some LinkOpen" by simp
    with start_streaming_websocket[of s1] assms(3) have o2: "websocket s2 = Some LinkOpen"
      by simp
    obtain r2 where r2: "start_streaming s1 = (r2, s2)"
      using assms(3) by (cases "start_streaming s1") simp
    with a have nb: "r2 \<noteq> Blocks" by simp
    have "start_stream H env = try_finally start_streaming disconnect s1"
      unfolding start_stream_def assms(1)[symmetric] using c by (simp add: then_do_def)
    also have "\<dots> = (r2, s2\<lparr>websocket := Some LinkClosed,
                          trace := trace s2 @ [ClosedLink, Printed PDisconnected]\<rparr>)"
      using r2 nb disconnect_open[OF o2]
      by (cases r2) (simp_all add: try_finally_def)
    finally show ?thesis using r2 by simp
  qed
  from first second show ?thesis by blast
qed

lemmas run_defs =
  connect_def connect_try_def receive_hello_def receive_identified_def send_identify_def
  identify_message_def connect_except_def try_except_def then_do_def ws_connect_def ws_recv_def
  ws_send_def py_print_def emit_def json_loads_def ret_def raise_def lift_def bindE_def
  start_streaming_def print_value_def printable_def OBSController_def example_env_def
  hello_plain_def identified_def not_identified_def lit_def

theorem start_stream_releases_session_witness:
  "fst (connect id (OBSController (lit ''localhost'') 4455 (Some (lit ''Oindia001''))
                     (example_env [hello_plain, identified, JObj []]))) = Returns True
   \<and> start_stream id (example_env [hello_plain, identified, JObj []]) =
       (Raises (KeyError (lit ''d'')),
        (snd (start_streaming (snd (connect id
           (OBSController (lit ''localhost'') 4455 (Some (lit ''Oindia001''))
              (example_env [hello_plain, identified, JObj []]))))))
        \<lparr>websocket := Some LinkClosed,
         trace :=
           [Printed (PConnected (lit ''localhost'') 4455), Printed PReceivedHello,
            Printed PNoAuthRequired, Sent (identify_message None), Printed PIdentified,
            Sent (request ''StartStream'' ''start-stream''),
            ClosedLink, Printed PDisconnected]\<rparr>)
   \<and> fst (connect id (OBSController (lit ''localhost'') 4455 (Some (lit ''Oindia001''))
                       (example_env [hello_plain, not_identified]))) = Returns False
   \<and> start_stream id (example_env [hello_plain, not_identified]) =
       (Returns (),
        snd (connect id (OBSController (lit ''localhost'') 4455 (Some (lit ''Oindia001''))
                          (example_env [hello_plain, not_identified]))))"
proof -
  let ?a = "OBSController (lit ''localhost'') 4455 (Some (lit ''Oindia001''))
              (example_env [hello_plain, identified, JObj []])"
  let ?b = "OBSController (lit ''localhost'') 4455 (Some (lit ''Oindia001''))
              (example_env [hello_plain, not_identified])"
  have ca: "fst (connect id ?a) = Returns True"
    by (simp add: run_defs)
  have sa: "fst (start_streaming (snd (connect id ?a))) = Raises (KeyError (lit ''d''))"
    by (simp add: run_defs)
  have ta: "trace (snd (start_streaming (snd (connect id ?a)))) =
      [Printed (PConnected (lit ''localhost'') 4455), Printed PReceivedHello,
       Printed PNoAuthRequired, Sent (identify_message None), Printed PIdentified,
       Sent (request ''StartStream'' ''start-stream'')]"
    by (simp add: run_defs request_def)
  have cb: "fst (connect id ?b) = Returns False"
    by (simp add: run_defs)
  from start_stream_releases_session[OF refl refl refl, of id
      "example_env [hello_plain, identified, JObj []]"] ca sa ta
  have 1: "start_stream id (example_env [hello_plain, identified, JObj []]) =
       (Raises (KeyError (lit ''d'')),
        (snd (start_streaming (snd (connect id ?a))))
        \<lparr>websocket := Some LinkClosed,
         trace :=
           [Printed (PConnected (lit ''localhost'') 4455), Printed PReceivedHello,
            Printed PNoAuthRequired, Sent (identify_message None), Printed PIdentified,
            Sent (request ''StartStream'' ''start-stream''),
            ClosedLink, Printed PDisconnected]\<rparr>)"
    by simp
  from start_stream_releases_session[OF refl refl refl, of id
      "example_env [hello_plain, not_identified]"] cb
  have 2: "start_stream id (example_env [hello_plain, not_identified]) =
       (Returns (), snd (connect id ?b))"
    by (simp add: prod_eq_iff)
  from ca 1 cb 2 show ?thesis by simp
qed

end
